theory Spec2Isabelle
  imports Complex_Main
begin

section \<open>The request object of the batch manager (llmRequest.h)\<close>

text \<open>
  This theory embeds \<^verbatim>\<open>GenericLlmRequest<TTensor>\<close> of
  \<^verbatim>\<open>cpp/include/tensorrt_llm/batch_manager/llmRequest.h\<close>: its constructor, the
  token and log-probability bookkeeping, \<^verbatim>\<open>pause\<close> and the chunked-context cursor.

  Conventions of the embedding.
  \<^item> \<^verbatim>\<open>SizeType\<close> and \<^verbatim>\<open>TokenIdType\<close> are signed integers (the header prints
    them with \<^verbatim>\<open>%d\<close>, compares them with 0 and initialises a slot with -1), of 32
    bits. They are modelled as \<open>int\<close>. The size of a vector is taken to fit
    \<^verbatim>\<open>SizeType\<close>; prompt lengths, positions and offsets of a request with at least
    one beam lie between 0 and such a size, so their sums and differences cannot leave
    the 32 bits. The budget \<open>mMaxNewTokens\<close> is any \<^verbatim>\<open>SizeType\<close> the caller gave,
    and its update in \<^verbatim>\<open>pause\<close> can: it is computed with the wrap-around of 32-bit
    two's complement (\<open>int32_wrap\<close>), which is what the compiled code does where the
    standard leaves the overflow undefined.
  \<^item> \<^verbatim>\<open>RequestIdType\<close> (\<^verbatim>\<open>std::uint64_t\<close>) is \<open>nat\<close>.
  \<^item> \<^verbatim>\<open>float\<close> values are only stored and copied, never computed on; they are
    modelled as \<open>real\<close>, the value-initialised element being 0.
  \<^item> The tensor type \<^verbatim>\<open>TTensor\<close> is the type parameter \<open>'t\<close>.
  \<^item> A \<^verbatim>\<open>std::shared_ptr<VecTokens>\<close> is modelled by the vector it points to.
  \<^item> Every \<^verbatim>\<open>throw\<close>, failed check, failed \<^verbatim>\<open>assert\<close> and exception of the
    standard library is a value \<open>Inl e\<close>; a member function that mutates the object
    takes the request and returns the updated one as \<open>Inr r\<close>. An \<^verbatim>\<open>assert\<close>
    is read as in a build that keeps assertions.
  \<^item> The default-constructed tensors \<^verbatim>\<open>mContextLogits\<close>, \<^verbatim>\<open>mContextLogitsHost\<close>,
    \<^verbatim>\<open>mGenerationLogits\<close> and \<^verbatim>\<open>mGenerationLogitsHost\<close> are left out of the record:
    only their own getters and setters touch them.
\<close>

subsection \<open>Data\<close>

datatype LlmRequestState_t =
    REQUEST_STATE_UNKNOWN
  | REQUEST_STATE_CONTEXT_INIT
  | REQUEST_STATE_GENERATION_IN_PROGRESS
  | REQUEST_STATE_GENERATION_COMPLETE

text \<open>
  The failures of the code. \<open>RuntimeError\<close> is the constructor's
  \<^verbatim>\<open>std::runtime_error\<close> with its message; \<open>TllmException\<close> is a failed
  \<^verbatim>\<open>TLLM_CHECK_WITH_INFO\<close>; \<open>AssertFailed\<close> a failed \<^verbatim>\<open>assert\<close>;
  \<open>OutOfRange\<close> is \<^verbatim>\<open>std::out_of_range\<close> of \<^verbatim>\<open>vector::at\<close>;
  \<open>LengthError\<close> is \<^verbatim>\<open>std::length_error\<close> of a vector asked for more than
  \<^verbatim>\<open>max_size()\<close> elements; \<open>OutOfBounds\<close> is an unchecked \<^verbatim>\<open>operator[]\<close>
  beyond the end of a vector.
\<close>

datatype error =
    RuntimeError string
  | TllmException
  | AssertFailed
  | OutOfRange
  | LengthError
  | OutOfBounds

type_synonym TokenIdType = int
type_synonym SizeType = int
type_synonym VecTokens = "TokenIdType list"
type_synonym VecLogProbs = "real list"
type_synonym BeamTokens = "VecTokens list"

text \<open>Of \<^verbatim>\<open>runtime::SamplingConfig\<close> the header reads the beam width only.\<close>

record SamplingConfig =
  beamWidth :: SizeType

record 't GenericLlmRequest =
  mRequestId :: nat
  mPromptLen :: SizeType
  mMaxNewTokens :: SizeType
  mSamplingConfig :: SamplingConfig
  mState :: LlmRequestState_t
  mIsStreaming :: bool
  mEndId :: "SizeType option"
  mPadId :: "SizeType option"
  mSeqSlot :: SizeType
  mOrigPromptLen :: SizeType
  mTokens :: BeamTokens
  mMaxSentTokenPos :: SizeType
  mEmbeddingBias :: "'t option"
  mBadWordsList :: "'t option"
  mStopWordsList :: "'t option"
  mPromptEmbeddingTable :: "'t option"
  mPromptVocabSize :: "SizeType option"
  mLoraWeights :: "'t option"
  mLoraConfig :: "'t option"
  mReturnLogProbs :: bool
  mContextChunkSize :: "SizeType option"
  mContextCurrentPosition :: SizeType
  mLogProbs :: "VecLogProbs list"
  mCumLogProbs :: VecLogProbs
  mDraftTokens :: VecTokens
  mDraftLogits :: "'t option"
  mGenerationLogitsFragments :: "'t list"

text \<open>The parameters of the constructor, under their names in the header.\<close>

record 't ctor_args =
  requestId :: nat
  maxNewTokens :: SizeType
  inputTokens :: VecTokens
  samplingConfig :: SamplingConfig
  isStreaming :: bool
  endId :: "SizeType option"
  padId :: "SizeType option"
  embeddingBias :: "'t option"
  badWordsList :: "'t option"
  stopWordsList :: "'t option"
  promptEmbeddingTable :: "'t option"
  promptVocabSize :: "SizeType option"
  loraWeights :: "'t option"
  loraConfig :: "'t option"
  returnLogProbs :: bool
  draftTokens :: "VecTokens option"
  draftLogits :: "'t option"

subsection \<open>Integers of 32 bits\<close>

text \<open>The value of a signed 32-bit integer holding \<open>x\<close> modulo \<open>2\<^sup>3\<^sup>2\<close>.\<close>

definition int32_wrap :: "int \<Rightarrow> SizeType" where
  "int32_wrap x = (x + 2147483648) mod 4294967296 - 2147483648"

subsection \<open>Vectors\<close>

text \<open>
  \<^verbatim>\<open>v.at(i)\<close> with a signed index: a negative index converts to a huge
  \<^verbatim>\<open>size_t\<close> and is out of range like any index beyond the end.
\<close>

definition vec_at :: "'a list \<Rightarrow> SizeType \<Rightarrow> error + 'a" where
  "vec_at v i = (if 0 \<le> i \<and> nat i < length v then Inr (v ! nat i) else Inl OutOfRange)"

text \<open>
  \<^verbatim>\<open>v.resize(n)\<close> with a signed size: a negative \<open>n\<close> converts to a
  \<^verbatim>\<open>size_t\<close> above \<^verbatim>\<open>max_size()\<close> and the vector throws
  \<^verbatim>\<open>std::length_error\<close>; otherwise the vector is cut to its first \<open>n\<close>
  elements or filled up with value-initialised ones.
\<close>

definition resize :: "'a::zero list \<Rightarrow> SizeType \<Rightarrow> error + 'a list" where
  "resize v n =
     (if n < 0 then Inl LengthError
      else Inr (take (nat n) v @ replicate (nat n - length v) 0))"

text \<open>\<^verbatim>\<open>std::vector<T>(n)\<close> and \<^verbatim>\<open>std::vector<T>(n, x)\<close> with a signed size.\<close>

definition vector_n :: "SizeType \<Rightarrow> 'a \<Rightarrow> error + 'a list" where
  "vector_n n x = (if n < 0 then Inl LengthError else Inr (replicate (nat n) x))"

subsection \<open>Construction\<close>

definition errPromptTuning :: string where
  "errPromptTuning =
     ''Prompt embedding table and prompt vocab size tensors must both be provided for requests with prompt tuning enabled.''"

definition errDraft :: string where
  "errDraft = ''Draft tokens must be specified when draft logits are given.''"

text \<open>
  The member initialisers run first (the vectors of log-probs are created with
  \<open>beamWidth\<close> elements), then the body: \<open>mMaxSentTokenPos\<close>, the scattering of the
  prompt to every beam, and the two checks, in the header's order.
\<close>

definition GenericLlmRequest :: "'t ctor_args \<Rightarrow> error + 't GenericLlmRequest" where
  "GenericLlmRequest a =
     (case vector_n (beamWidth (samplingConfig a)) ([] :: VecLogProbs) of
        Inl e \<Rightarrow> Inl e
      | Inr logProbs \<Rightarrow>
     (case vector_n (beamWidth (samplingConfig a)) (0 :: real) of
        Inl e \<Rightarrow> Inl e
      | Inr cumLogProbs \<Rightarrow>
     (case vector_n (beamWidth (samplingConfig a)) (inputTokens a) of
        Inl e \<Rightarrow> Inl e
      | Inr tokens \<Rightarrow>
        if (promptEmbeddingTable a \<noteq> None \<and> promptVocabSize a = None)
           \<or> (promptEmbeddingTable a = None \<and> promptVocabSize a \<noteq> None)
        then Inl (RuntimeError errPromptTuning)
        else if draftLogits a \<noteq> None \<and> draftTokens a = None
        then Inl (RuntimeError errDraft)
        else Inr \<lparr>
          mRequestId = requestId a,
          mPromptLen = int (length (inputTokens a)),
          mMaxNewTokens = maxNewTokens a,
          mSamplingConfig = samplingConfig a,
          mState = REQUEST_STATE_CONTEXT_INIT,
          mIsStreaming = isStreaming a,
          mEndId = endId a,
          mPadId = padId a,
          mSeqSlot = - 1,
          mOrigPromptLen = int (length (inputTokens a)),
          mTokens = tokens,
          mMaxSentTokenPos = int (length (inputTokens a)) - 1,
          mEmbeddingBias = embeddingBias a,
          mBadWordsList = badWordsList a,
          mStopWordsList = stopWordsList a,
          mPromptEmbeddingTable = promptEmbeddingTable a,
          mPromptVocabSize = promptVocabSize a,
          mLoraWeights = loraWeights a,
          mLoraConfig = loraConfig a,
          mReturnLogProbs = returnLogProbs a,
          mContextChunkSize = None,
          mContextCurrentPosition = 0,
          mLogProbs = logProbs,
          mCumLogProbs = cumLogProbs,
          mDraftTokens = (case draftTokens a of None \<Rightarrow> [] | Some d \<Rightarrow> d),
          mDraftLogits = draftLogits a,
          mGenerationLogitsFragments = []
        \<rparr>)))"

subsection \<open>Tokens\<close>

definition getNumTokens :: "'t GenericLlmRequest \<Rightarrow> SizeType \<Rightarrow> error + SizeType" where
  "getNumTokens r beam =
     (case vec_at (mTokens r) beam of Inl e \<Rightarrow> Inl e | Inr v \<Rightarrow> Inr (int (length v)))"

text \<open>
  The \<^verbatim>\<open>for\<close> loops of the header run over the beam indices in increasing order;
  each is a recursion over the list of indices still to visit.
\<close>

fun getMaxBeamNumTokens_loop :: "BeamTokens \<Rightarrow> nat list \<Rightarrow> SizeType \<Rightarrow> error + SizeType" where
  "getMaxBeamNumTokens_loop toks [] maxTokens = Inr maxTokens"
| "getMaxBeamNumTokens_loop toks (beam # beams) maxTokens =
     (case vec_at toks (int beam) of
        Inl e \<Rightarrow> Inl e
      | Inr v \<Rightarrow> getMaxBeamNumTokens_loop toks beams (max maxTokens (int (length v))))"

definition getMaxBeamNumTokens :: "'t GenericLlmRequest \<Rightarrow> error + SizeType" where
  "getMaxBeamNumTokens r =
     getMaxBeamNumTokens_loop (mTokens r) [0 ..< nat (beamWidth (mSamplingConfig r))] 0"

definition getToken :: "'t GenericLlmRequest \<Rightarrow> SizeType \<Rightarrow> SizeType \<Rightarrow> error + TokenIdType" where
  "getToken r beam pos =
     (case vec_at (mTokens r) beam of Inl e \<Rightarrow> Inl e | Inr v \<Rightarrow> vec_at v pos)"

definition getTokens :: "'t GenericLlmRequest \<Rightarrow> SizeType \<Rightarrow> error + VecTokens" where
  "getTokens r beam = vec_at (mTokens r) beam"

definition hasDraftTokens :: "'t GenericLlmRequest \<Rightarrow> bool" where
  "hasDraftTokens r = (length (mDraftTokens r) > 0)"

definition getMaxNumGeneratedTokens :: "'t GenericLlmRequest \<Rightarrow> error + SizeType" where
  "getMaxNumGeneratedTokens r =
     (case getMaxBeamNumTokens r of Inl e \<Rightarrow> Inl e | Inr m \<Rightarrow> Inr (m - mPromptLen r))"

definition addNewToken ::
  "'t GenericLlmRequest \<Rightarrow> TokenIdType \<Rightarrow> SizeType \<Rightarrow> error + 't GenericLlmRequest" where
  "addNewToken r token beam =
     (case vec_at (mTokens r) beam of
        Inl e \<Rightarrow> Inl e
      | Inr v \<Rightarrow> Inr (r\<lparr>mTokens := (mTokens r)[nat beam := v @ [token]]\<rparr>))"

fun addNewTokens_loop :: "VecTokens \<Rightarrow> nat list \<Rightarrow> BeamTokens \<Rightarrow> error + BeamTokens" where
  "addNewTokens_loop beamTokens [] toks = Inr toks"
| "addNewTokens_loop beamTokens (beam # beams) toks =
     (case vec_at toks (int beam) of
        Inl e \<Rightarrow> Inl e
      | Inr v \<Rightarrow> addNewTokens_loop beamTokens beams (toks[beam := v @ [beamTokens ! beam]]))"

text \<open>
  The \<^verbatim>\<open>assert\<close> compares \<^verbatim>\<open>static_cast<size_t>(beamWidth)\<close> with the size of the
  argument; a negative width converts to a value no vector has as its size.
\<close>

definition addNewTokens :: "'t GenericLlmRequest \<Rightarrow> VecTokens \<Rightarrow> error + 't GenericLlmRequest" where
  "addNewTokens r beamTokens =
     (if beamWidth (mSamplingConfig r) = int (length beamTokens)
      then (case addNewTokens_loop beamTokens [0 ..< length beamTokens] (mTokens r) of
              Inl e \<Rightarrow> Inl e
            | Inr toks \<Rightarrow> Inr (r\<lparr>mTokens := toks\<rparr>))
      else Inl AssertFailed)"

fun setGeneratedTokens_loop ::
  "BeamTokens \<Rightarrow> SizeType \<Rightarrow> nat list \<Rightarrow> BeamTokens \<Rightarrow> error + BeamTokens" where
  "setGeneratedTokens_loop generatedBeamTokens promptLen [] toks = Inr toks"
| "setGeneratedTokens_loop generatedBeamTokens promptLen (beam # beams) toks =
     (if beam < length toks
      then (case resize (toks ! beam) promptLen of
              Inl e \<Rightarrow> Inl e
            | Inr v \<Rightarrow>
                setGeneratedTokens_loop generatedBeamTokens promptLen beams
                  (toks[beam := v @ generatedBeamTokens ! beam]))
      else Inl OutOfBounds)"

definition setGeneratedTokens ::
  "'t GenericLlmRequest \<Rightarrow> BeamTokens \<Rightarrow> error + 't GenericLlmRequest" where
  "setGeneratedTokens r generatedBeamTokens =
     (if int (length generatedBeamTokens) = beamWidth (mSamplingConfig r)
      then (case setGeneratedTokens_loop generatedBeamTokens (mPromptLen r)
                   [0 ..< length generatedBeamTokens] (mTokens r) of
              Inl e \<Rightarrow> Inl e
            | Inr toks \<Rightarrow> Inr (r\<lparr>mTokens := toks\<rparr>))
      else Inl AssertFailed)"

subsection \<open>Pause\<close>

text \<open>The loop of the branch \<^verbatim>\<open>beamWidth > 1\<close>: every beam is cut to the prompt.\<close>

fun pause_reset_loop ::
  "SizeType \<Rightarrow> bool \<Rightarrow> nat list \<Rightarrow> BeamTokens \<times> VecLogProbs list
     \<Rightarrow> error + BeamTokens \<times> VecLogProbs list" where
  "pause_reset_loop promptLen retLogProbs [] (toks, lps) = Inr (toks, lps)"
| "pause_reset_loop promptLen retLogProbs (beam # beams) (toks, lps) =
     (case vec_at toks (int beam) of
        Inl e \<Rightarrow> Inl e
      | Inr beamTokens \<Rightarrow>
     (case resize beamTokens promptLen of
        Inl e \<Rightarrow> Inl e
      | Inr beamTokens' \<Rightarrow>
          if retLogProbs
          then (case vec_at lps (int beam) of
                  Inl e \<Rightarrow> Inl e
                | Inr logProb \<Rightarrow>
                    pause_reset_loop promptLen retLogProbs beams
                      (toks[beam := beamTokens'], lps[beam := []]))
          else pause_reset_loop promptLen retLogProbs beams (toks[beam := beamTokens'], lps)))"

text \<open>The loop of the other branch: the beam is resized to the new prompt length.\<close>

fun pause_move_loop ::
  "SizeType \<Rightarrow> SizeType \<Rightarrow> bool \<Rightarrow> nat list \<Rightarrow> BeamTokens \<times> VecLogProbs list
     \<Rightarrow> error + BeamTokens \<times> VecLogProbs list" where
  "pause_move_loop newPromptLen promptLen retLogProbs [] (toks, lps) = Inr (toks, lps)"
| "pause_move_loop newPromptLen promptLen retLogProbs (beam # beams) (toks, lps) =
     (case vec_at toks (int beam) of
        Inl e \<Rightarrow> Inl e
      | Inr beamTokens \<Rightarrow>
     (case resize beamTokens newPromptLen of
        Inl e \<Rightarrow> Inl e
      | Inr beamTokens' \<Rightarrow>
          if retLogProbs
          then (case vec_at lps (int beam) of
                  Inl e \<Rightarrow> Inl e
                | Inr logProb \<Rightarrow>
                   (case resize logProb (newPromptLen - promptLen) of
                      Inl e \<Rightarrow> Inl e
                    | Inr logProb' \<Rightarrow>
                        pause_move_loop newPromptLen promptLen retLogProbs beams
                          (toks[beam := beamTokens'], lps[beam := logProb'])))
          else pause_move_loop newPromptLen promptLen retLogProbs beams
                 (toks[beam := beamTokens'], lps)))"

definition pause :: "'t GenericLlmRequest \<Rightarrow> SizeType \<Rightarrow> error + 't GenericLlmRequest" where
  "pause r maxInputLen =
     (case
        (if beamWidth (mSamplingConfig r) > 1
         then (case pause_reset_loop (mPromptLen r) (mReturnLogProbs r)
                      [0 ..< length (mTokens r)] (mTokens r, mLogProbs r) of
                 Inl e \<Rightarrow> Inl e
               | Inr (toks, lps) \<Rightarrow> Inr (r\<lparr>mTokens := toks, mLogProbs := lps\<rparr>))
         else (case getMaxNumGeneratedTokens r of
                 Inl e \<Rightarrow> Inl e
               | Inr numGenerated \<Rightarrow>
                   let newPromptLen = min maxInputLen (mPromptLen r + numGenerated) in
                   (case pause_move_loop newPromptLen (mPromptLen r) (mReturnLogProbs r)
                           [0 ..< length (mTokens r)] (mTokens r, mLogProbs r) of
                      Inl e \<Rightarrow> Inl e
                    | Inr (toks, lps) \<Rightarrow>
                        Inr (r\<lparr>mTokens := toks, mLogProbs := lps,
                               mMaxNewTokens :=
                                 int32_wrap (mMaxNewTokens r - (newPromptLen - mPromptLen r)),
                               mPromptLen := newPromptLen\<rparr>))))
      of
        Inl e \<Rightarrow> Inl e
      | Inr r' \<Rightarrow>
          Inr (r'\<lparr>mState := REQUEST_STATE_CONTEXT_INIT,
                  mContextCurrentPosition := 0,
                  mContextChunkSize := None,
                  mSeqSlot := - 1\<rparr>))"

subsection \<open>Setters of the streaming layer and of the decoder\<close>

definition setMaxSentTokenPos :: "'t GenericLlmRequest \<Rightarrow> SizeType \<Rightarrow> 't GenericLlmRequest" where
  "setMaxSentTokenPos r pos = r\<lparr>mMaxSentTokenPos := pos\<rparr>"

definition setLogProbs ::
  "'t GenericLlmRequest \<Rightarrow> VecLogProbs \<Rightarrow> SizeType \<Rightarrow> error + 't GenericLlmRequest" where
  "setLogProbs r logProbs beam =
     (case vec_at (mLogProbs r) beam of
        Inl e \<Rightarrow> Inl e
      | Inr lp \<Rightarrow>
     (case resize lp (mPromptLen r - mOrigPromptLen r) of
        Inl e \<Rightarrow> Inl e
      | Inr lp' \<Rightarrow> Inr (r\<lparr>mLogProbs := (mLogProbs r)[nat beam := lp' @ logProbs]\<rparr>)))"

definition setCumLogProb ::
  "'t GenericLlmRequest \<Rightarrow> real \<Rightarrow> SizeType \<Rightarrow> error + 't GenericLlmRequest" where
  "setCumLogProb r cumLogProb beam =
     (case vec_at (mCumLogProbs r) beam of
        Inl e \<Rightarrow> Inl e
      | Inr _ \<Rightarrow> Inr (r\<lparr>mCumLogProbs := (mCumLogProbs r)[nat beam := cumLogProb]\<rparr>))"

definition setDraftTokens :: "'t GenericLlmRequest \<Rightarrow> VecTokens \<Rightarrow> 't GenericLlmRequest" where
  "setDraftTokens r draftTokens' = r\<lparr>mDraftTokens := draftTokens'\<rparr>"

definition setDraftLogits :: "'t GenericLlmRequest \<Rightarrow> 't option \<Rightarrow> 't GenericLlmRequest" where
  "setDraftLogits r draftLogits' = r\<lparr>mDraftLogits := draftLogits'\<rparr>"

definition addGenerationFragments :: "'t GenericLlmRequest \<Rightarrow> 't \<Rightarrow> 't GenericLlmRequest" where
  "addGenerationFragments r genLogits =
     r\<lparr>mGenerationLogitsFragments := mGenerationLogitsFragments r @ [genLogits]\<rparr>"

definition clearGenerationLogitsFragments :: "'t GenericLlmRequest \<Rightarrow> 't GenericLlmRequest" where
  "clearGenerationLogitsFragments r = r\<lparr>mGenerationLogitsFragments := []\<rparr>"

subsection \<open>The chunked-context cursor\<close>

definition isContextInitState :: "'t GenericLlmRequest \<Rightarrow> bool" where
  "isContextInitState r = (mState r = REQUEST_STATE_CONTEXT_INIT)"

definition isGenerationInProgessState :: "'t GenericLlmRequest \<Rightarrow> bool" where
  "isGenerationInProgessState r = (mState r = REQUEST_STATE_GENERATION_IN_PROGRESS)"

definition isFullContextRequest :: "'t GenericLlmRequest \<Rightarrow> bool" where
  "isFullContextRequest r = (isContextInitState r \<and> mContextChunkSize r = None)"

definition getContextCurrentPosition :: "'t GenericLlmRequest \<Rightarrow> SizeType" where
  "getContextCurrentPosition r = mContextCurrentPosition r"

definition getContextRemainingLength :: "'t GenericLlmRequest \<Rightarrow> SizeType" where
  "getContextRemainingLength r = mPromptLen r - getContextCurrentPosition r"

definition getContextChunkSize :: "'t GenericLlmRequest \<Rightarrow> error + SizeType" where
  "getContextChunkSize r =
     (if isContextInitState r \<and> mContextChunkSize r \<noteq> None
      then (case mContextChunkSize r of None \<Rightarrow> Inl TllmException | Some c \<Rightarrow> Inr c)
      else Inl TllmException)"

definition setContextChunkSize ::
  "'t GenericLlmRequest \<Rightarrow> SizeType \<Rightarrow> error + 't GenericLlmRequest" where
  "setContextChunkSize r size' =
     (if \<not> isContextInitState r then Inl TllmException
      else if \<not> size' \<ge> 0 then Inl TllmException
      else Inr (r\<lparr>mContextChunkSize := Some (min size' (getContextRemainingLength r))\<rparr>))"

text \<open>
  \<^verbatim>\<open>isLastContextChunk\<close> evaluates \<^verbatim>\<open>getContextChunkSize()\<close> only when the two
  tests before it (\<^verbatim>\<open>||\<close>, \<^verbatim>\<open>&&\<close>) let it; the getter can throw, so the result is
  a sum.
\<close>

definition isLastContextChunk :: "'t GenericLlmRequest \<Rightarrow> error + bool" where
  "isLastContextChunk r =
     (if isFullContextRequest r then Inr True
      else if \<not> isContextInitState r then Inr False
      else (case getContextChunkSize r of
              Inl e \<Rightarrow> Inl e
            | Inr c \<Rightarrow> Inr (getContextCurrentPosition r + c = mPromptLen r)))"

definition isFirstContextChunk :: "'t GenericLlmRequest \<Rightarrow> bool" where
  "isFirstContextChunk r = (isFullContextRequest r \<or> getContextCurrentPosition r = 0)"

definition moveToNextContextChunk :: "'t GenericLlmRequest \<Rightarrow> error + 't GenericLlmRequest" where
  "moveToNextContextChunk r =
     (if \<not> isContextInitState r then Inl TllmException
      else if mContextChunkSize r \<noteq> None
      then (case getContextChunkSize r of
              Inl e \<Rightarrow> Inl e
            | Inr c \<Rightarrow>
                setContextChunkSize
                  (r\<lparr>mContextCurrentPosition := mContextCurrentPosition r + c\<rparr>) 0)
      else if \<not> mContextCurrentPosition r = 0 then Inl TllmException
      else Inr (r\<lparr>mContextCurrentPosition := mPromptLen r\<rparr>))"

subsection \<open>Histories of a request\<close>

text \<open>
  A call of one of the mutating member functions. The members \<^verbatim>\<open>mState\<close> and
  \<^verbatim>\<open>mSeqSlot\<close> are public and written by the scheduler (the header itself only
  resets them in \<^verbatim>\<open>pause\<close>); \<open>SetState\<close> and \<open>SetSeqSlot\<close> are these writes.
\<close>

datatype 't call =
    AddNewToken TokenIdType SizeType
  | AddNewTokens VecTokens
  | SetGeneratedTokens BeamTokens
  | Pause SizeType
  | SetMaxSentTokenPos SizeType
  | SetLogProbs VecLogProbs SizeType
  | SetCumLogProb real SizeType
  | SetDraftTokens VecTokens
  | SetDraftLogits "'t option"
  | AddGenerationFragments 't
  | ClearGenerationLogitsFragments
  | SetContextChunkSize SizeType
  | MoveToNextContextChunk
  | SetState LlmRequestState_t
  | SetSeqSlot SizeType

fun exec :: "'t GenericLlmRequest \<Rightarrow> 't call \<Rightarrow> error + 't GenericLlmRequest" where
  "exec r (AddNewToken token beam) = addNewToken r token beam"
| "exec r (AddNewTokens beamTokens) = addNewTokens r beamTokens"
| "exec r (SetGeneratedTokens generatedBeamTokens) = setGeneratedTokens r generatedBeamTokens"
| "exec r (Pause maxInputLen) = pause r maxInputLen"
| "exec r (SetMaxSentTokenPos pos) = Inr (setMaxSentTokenPos r pos)"
| "exec r (SetLogProbs logProbs beam) = setLogProbs r logProbs beam"
| "exec r (SetCumLogProb cumLogProb beam) = setCumLogProb r cumLogProb beam"
| "exec r (SetDraftTokens draftTokens') = Inr (setDraftTokens r draftTokens')"
| "exec r (SetDraftLogits draftLogits') = Inr (setDraftLogits r draftLogits')"
| "exec r (AddGenerationFragments genLogits) = Inr (addGenerationFragments r genLogits)"
| "exec r ClearGenerationLogitsFragments = Inr (clearGenerationLogitsFragments r)"
| "exec r (SetContextChunkSize size') = setContextChunkSize r size'"
| "exec r MoveToNextContextChunk = moveToNextContextChunk r"
| "exec r (SetState s) = Inr (r\<lparr>mState := s\<rparr>)"
| "exec r (SetSeqSlot slot) = Inr (r\<lparr>mSeqSlot := slot\<rparr>)"

text \<open>A sequence of calls stops at the first failure, as the exception would.\<close>

fun run :: "'t GenericLlmRequest \<Rightarrow> 't call list \<Rightarrow> error + 't GenericLlmRequest" where
  "run r [] = Inr r"
| "run r (c # cs) = (case exec r c of Inl e \<Rightarrow> Inl e | Inr r' \<Rightarrow> run r' cs)"

text \<open>Construction followed by a sequence of calls.\<close>

definition history :: "'t ctor_args \<Rightarrow> 't call list \<Rightarrow> error + 't GenericLlmRequest" where
  "history a cs = (case GenericLlmRequest a of Inl e \<Rightarrow> Inl e | Inr r \<Rightarrow> run r cs)"

text \<open>
  The states a sequence of calls passes through, one after each call.
\<close>

fun trace :: "'t GenericLlmRequest \<Rightarrow> 't call list \<Rightarrow> error + 't GenericLlmRequest list" where
  "trace r [] = Inr []"
| "trace r (c # cs) =
     (case exec r c of
        Inl e \<Rightarrow> Inl e
      | Inr r' \<Rightarrow> (case trace r' cs of Inl e \<Rightarrow> Inl e | Inr rs \<Rightarrow> Inr (r' # rs)))"

text \<open>
  Two readings of ``a chunk size has been assigned'' over a history: at some point of
  it (\<open>ever_assigned\<close>), or after the construction or the last \<^verbatim>\<open>pause\<close>
  (\<open>assigned_since_reset\<close>).
\<close>

fun assigns_chunk :: "'t call \<Rightarrow> bool" where
  "assigns_chunk (SetContextChunkSize _) = True"
| "assigns_chunk _ = False"

definition ever_assigned :: "'t call list \<Rightarrow> bool" where
  "ever_assigned cs = list_ex assigns_chunk cs"

fun chunk_flag :: "bool \<Rightarrow> 't call list \<Rightarrow> bool" where
  "chunk_flag b [] = b"
| "chunk_flag b (SetContextChunkSize _ # cs) = chunk_flag True cs"
| "chunk_flag b (Pause _ # cs) = chunk_flag False cs"
| "chunk_flag b (_ # cs) = chunk_flag b cs"

definition assigned_since_reset :: "'t call list \<Rightarrow> bool" where
  "assigned_since_reset cs = chunk_flag False cs"

subsection \<open>Invariant of the requests a history produces\<close>

text \<open>
  There are as many beams and log-prob sequences as the beam width says, no beam is
  shorter than the prompt, a request with several beams still has its first prompt
  length, the prompt of a request that returns log-probs has not become shorter, and an
  assigned chunk never reaches beyond the prompt.
\<close>

definition request_inv :: "'t GenericLlmRequest \<Rightarrow> bool" where
  "request_inv r \<longleftrightarrow>
     length (mTokens r) = nat (beamWidth (mSamplingConfig r)) \<and>
     length (mLogProbs r) = nat (beamWidth (mSamplingConfig r)) \<and>
     0 \<le> mOrigPromptLen r \<and>
     (\<forall>v \<in> set (mTokens r). mPromptLen r \<le> int (length v)) \<and>
     (1 < beamWidth (mSamplingConfig r) \<longrightarrow> mPromptLen r = mOrigPromptLen r) \<and>
     (0 < beamWidth (mSamplingConfig r) \<and> mReturnLogProbs r \<longrightarrow>
        mOrigPromptLen r \<le> mPromptLen r) \<and>
     (\<forall>c. mContextChunkSize r = Some c \<longrightarrow> mContextCurrentPosition r + c \<le> mPromptLen r)"


subsection \<open>Example inputs\<close>

text \<open>
  A request with the prompt 11, 12, 13 and no attachment, for a given beam width and
  log-prob flag; the calls of the chunking run 30, 30, 30, 10; a prompt of 100 tokens.
\<close>

definition exArgs :: "SizeType \<Rightarrow> bool \<Rightarrow> unit ctor_args" where
  "exArgs bw rlp = \<lparr>
     requestId = 7, maxNewTokens = 16, inputTokens = [11, 12, 13],
     samplingConfig = \<lparr>beamWidth = bw\<rparr>, isStreaming = False, endId = None, padId = None,
     embeddingBias = None, badWordsList = None, stopWordsList = None,
     promptEmbeddingTable = None, promptVocabSize = None, loraWeights = None,
     loraConfig = None, returnLogProbs = rlp, draftTokens = None, draftLogits = None\<rparr>"


definition exHistory :: "SizeType \<Rightarrow> bool \<Rightarrow> unit call list \<Rightarrow> unit GenericLlmRequest" where
  "exHistory bw rlp cs = projr (history (exArgs bw rlp) cs)"

definition exArgs100 :: "unit ctor_args" where
  "exArgs100 = (exArgs 1 False)\<lparr>inputTokens := replicate 100 11\<rparr>"

definition chunking :: "'t call list" where
  "chunking =
     [SetContextChunkSize 30, MoveToNextContextChunk,
      SetContextChunkSize 30, MoveToNextContextChunk,
      SetContextChunkSize 30, MoveToNextContextChunk,
      SetContextChunkSize 10, MoveToNextContextChunk]"

section \<open>Auxiliary facts\<close>

subsection \<open>Vectors\<close>

lemma int32_wrap_id: "- 2147483648 \<le> x \<Longrightarrow> x \<le> 2147483647 \<Longrightarrow> int32_wrap x = x"
  by (simp add: int32_wrap_def)

lemma vec_at_nat: "vec_at v (int i) = (if i < length v then Inr (v ! i) else Inl OutOfRange)"
  by (simp add: vec_at_def)

lemma vec_at_Inr: "vec_at v i = Inr x \<Longrightarrow> 0 \<le> i \<and> nat i < length v \<and> x = v ! nat i"
  by (auto simp: vec_at_def split: if_splits)

lemma resize_Inr: "resize v n = Inr w \<Longrightarrow> 0 \<le> n \<and> w = take (nat n) v @ replicate (nat n - length v) 0"
  by (auto simp: resize_def split: if_splits)

lemma length_resize: "resize v n = Inr w \<Longrightarrow> int (length w) = n"
  by (auto dest!: resize_Inr)

subsection \<open>The loops keep the shape of the beams\<close>

lemma inv_constructed: "GenericLlmRequest a = Inr r \<Longrightarrow> request_inv r"
  by (auto simp: GenericLlmRequest_def vector_n_def request_inv_def split: if_splits sum.splits)

lemma all_ge_update:
  "\<forall>v\<in>set toks. p \<le> int (length v) \<Longrightarrow> p \<le> int (length w) \<Longrightarrow>
   \<forall>v\<in>set (toks[i := w]). p \<le> int (length v)"
  by (auto dest: set_update_subset_insert [THEN subsetD])

lemma addNewTokens_loop_inv:
  "addNewTokens_loop bt beams toks = Inr toks' \<Longrightarrow>
   length toks' = length toks \<and> ((\<forall>v\<in>set toks. p \<le> int (length v)) \<longrightarrow> (\<forall>v\<in>set toks'. p \<le> int (length v)))"
proof (induction beams arbitrary: toks)
  case Nil
  then show ?case by simp
next
  case (Cons beam beams)
  from Cons.prems obtain v where v: "vec_at toks (int beam) = Inr v"
    and rest: "addNewTokens_loop bt beams (toks[beam := v @ [bt ! beam]]) = Inr toks'"
    by (auto split: sum.splits)
  from v have b: "beam < length toks" "v = toks ! beam"
    by (auto dest!: vec_at_Inr)
  from b have mem: "toks ! beam \<in> set toks"
    by simp
  have "(\<forall>v\<in>set toks. p \<le> int (length v)) \<Longrightarrow> \<forall>w\<in>set (toks[beam := v @ [bt ! beam]]). p \<le> int (length w)"
    using b mem by (intro all_ge_update) fastforce+
  with Cons.IH [OF rest] show ?case
    by auto
qed

lemma setGeneratedTokens_loop_inv:
  "setGeneratedTokens_loop gen pl beams toks = Inr toks' \<Longrightarrow>
   length toks' = length toks \<and> ((\<forall>v\<in>set toks. pl \<le> int (length v)) \<longrightarrow> (\<forall>v\<in>set toks'. pl \<le> int (length v)))"
proof (induction beams arbitrary: toks)
  case Nil
  then show ?case by simp
next
  case (Cons beam beams)
  from Cons.prems obtain v where b: "beam < length toks" and v: "resize (toks ! beam) pl = Inr v"
    and rest: "setGeneratedTokens_loop gen pl beams (toks[beam := v @ gen ! beam]) = Inr toks'"
    by (auto split: sum.splits if_splits)
  have "(\<forall>v\<in>set toks. pl \<le> int (length v)) \<Longrightarrow> \<forall>w\<in>set (toks[beam := v @ gen ! beam]). pl \<le> int (length w)"
    using length_resize [OF v] by (intro all_ge_update) auto
  with Cons.IH [OF rest] show ?case
    by auto
qed

lemma pause_reset_loop_inv:
  "pause_reset_loop pl rlp beams (toks, lps) = Inr (toks', lps') \<Longrightarrow>
   length toks' = length toks \<and> length lps' = length lps \<and>
   ((\<forall>v\<in>set toks. pl \<le> int (length v)) \<longrightarrow> (\<forall>v\<in>set toks'. pl \<le> int (length v)))"
proof (induction beams arbitrary: toks lps)
  case Nil
  then show ?case by simp
next
  case (Cons beam beams)
  from Cons.prems obtain v where b: "beam < length toks" and v: "resize (toks ! beam) pl = Inr v"
    and rest: "pause_reset_loop pl rlp beams (toks[beam := v], if rlp then lps[beam := []] else lps) = Inr (toks', lps')"
    by (auto simp: vec_at_nat split: sum.splits if_splits)
  have "(\<forall>v\<in>set toks. pl \<le> int (length v)) \<Longrightarrow> \<forall>w\<in>set (toks[beam := v]). pl \<le> int (length w)"
    using length_resize [OF v] by (intro all_ge_update) auto
  with Cons.IH [OF rest] show ?case
    by auto
qed

lemma pause_move_loop_inv:
  "pause_move_loop npl pl rlp beams (toks, lps) = Inr (toks', lps') \<Longrightarrow>
   length toks' = length toks \<and> length lps' = length lps"
proof (induction beams arbitrary: toks lps)
  case Nil
  then show ?case by simp
next
  case (Cons beam beams)
  show ?case
  proof (cases rlp)
    case True
    with Cons.prems obtain v w where
      "pause_move_loop npl pl rlp beams (toks[beam := v], lps[beam := w]) = Inr (toks', lps')"
      by (auto simp: vec_at_nat split: sum.splits if_splits)
    from Cons.IH [OF this] show ?thesis
      by simp
  next
    case False
    with Cons.prems obtain v where
      "pause_move_loop npl pl rlp beams (toks[beam := v], lps) = Inr (toks', lps')"
      by (auto simp: vec_at_nat split: sum.splits if_splits)
    from Cons.IH [OF this] show ?thesis
      by simp
  qed
qed


subsection \<open>Pause of a request with one beam\<close>

lemma getMaxNumGeneratedTokens_single:
  assumes "mTokens r = [bt]" "beamWidth (mSamplingConfig r) = 1"
  shows "getMaxNumGeneratedTokens r = Inr (int (length bt) - mPromptLen r)"
  using assms by (simp add: getMaxNumGeneratedTokens_def getMaxBeamNumTokens_def vec_at_def)

lemma pause_one_beam_eq:
  assumes "mTokens r = [bt]" "mLogProbs r = [lp]" "beamWidth (mSamplingConfig r) = 1"
  shows "pause r m =
    (if min m (int (length bt)) < 0 \<or> (mReturnLogProbs r \<and> min m (int (length bt)) < mPromptLen r)
     then Inl LengthError
     else Inr (r\<lparr>mTokens := [take (nat (min m (int (length bt)))) bt],
                mLogProbs := (if mReturnLogProbs r
                   then [take (nat (min m (int (length bt)) - mPromptLen r)) lp
                          @ replicate (nat (min m (int (length bt)) - mPromptLen r) - length lp) 0]
                   else [lp]),
                mMaxNewTokens :=
                  int32_wrap (mMaxNewTokens r - (min m (int (length bt)) - mPromptLen r)),
                mPromptLen := min m (int (length bt)),
                mState := REQUEST_STATE_CONTEXT_INIT,
                mContextCurrentPosition := 0,
                mContextChunkSize := None,
                mSeqSlot := - 1\<rparr>))"
  using assms
  by (simp add: pause_def getMaxNumGeneratedTokens_single [OF assms(1,3)] vec_at_def resize_def Let_def)


subsection \<open>Every call keeps the invariant\<close>

lemma addNewToken_inv:
  assumes "request_inv r" "addNewToken r token beam = Inr r'"
  shows "request_inv r'"
proof -
  from assms(2) obtain v where v: "vec_at (mTokens r) beam = Inr v"
    and r': "r' = r\<lparr>mTokens := (mTokens r)[nat beam := v @ [token]]\<rparr>"
    by (auto simp: addNewToken_def split: sum.splits)
  from v have "v \<in> set (mTokens r)"
    by (auto dest!: vec_at_Inr)
  with assms(1) have "\<forall>w\<in>set ((mTokens r)[nat beam := v @ [token]]). mPromptLen r \<le> int (length w)"
    by (intro all_ge_update) (auto simp: request_inv_def)
  with assms(1) show ?thesis
    by (simp add: request_inv_def r')
qed

lemma addNewTokens_inv:
  assumes "request_inv r" "addNewTokens r beamTokens = Inr r'"
  shows "request_inv r'"
proof -
  from assms(2) obtain toks where
    l: "addNewTokens_loop beamTokens [0 ..< length beamTokens] (mTokens r) = Inr toks"
    and r': "r' = r\<lparr>mTokens := toks\<rparr>"
    by (auto simp: addNewTokens_def split: sum.splits if_splits)
  from addNewTokens_loop_inv [OF l, of "mPromptLen r"] assms(1) show ?thesis
    by (simp add: request_inv_def r')
qed

lemma setGeneratedTokens_inv:
  assumes "request_inv r" "setGeneratedTokens r gen = Inr r'"
  shows "request_inv r'"
proof -
  from assms(2) obtain toks where
    l: "setGeneratedTokens_loop gen (mPromptLen r) [0 ..< length gen] (mTokens r) = Inr toks"
    and r': "r' = r\<lparr>mTokens := toks\<rparr>"
    by (auto simp: setGeneratedTokens_def split: sum.splits if_splits)
  from setGeneratedTokens_loop_inv [OF l] assms(1) show ?thesis
    by (simp add: request_inv_def r')
qed

lemma pause_inv:
  assumes "request_inv r" "pause r m = Inr r'"
  shows "request_inv r'"
proof (cases "1 < beamWidth (mSamplingConfig r)")
  case True
  with assms(2) obtain toks lps where
    l: "pause_reset_loop (mPromptLen r) (mReturnLogProbs r) [0 ..< length (mTokens r)]
          (mTokens r, mLogProbs r) = Inr (toks, lps)"
    and r': "r' = r\<lparr>mTokens := toks, mLogProbs := lps, mState := REQUEST_STATE_CONTEXT_INIT,
                  mContextCurrentPosition := 0, mContextChunkSize := None, mSeqSlot := - 1\<rparr>"
    by (auto simp: pause_def split: sum.splits)
  from pause_reset_loop_inv [OF l] assms(1) show ?thesis
    by (simp add: request_inv_def r')
next
  case False
  show ?thesis
  proof (cases "beamWidth (mSamplingConfig r) = 1")
    case True
    with assms(1) obtain bt lp where s: "mTokens r = [bt]" "mLogProbs r = [lp]"
      by (auto simp: request_inv_def length_Suc_conv)
    define n where "n = min m (int (length bt))"
    from assms(2) have ok: "0 \<le> n" "mReturnLogProbs r \<longrightarrow> mPromptLen r \<le> n"
      and f: "mTokens r' = [take (nat n) bt]" "length (mLogProbs r') = 1" "mPromptLen r' = n"
        "mContextChunkSize r' = None" "mSamplingConfig r' = mSamplingConfig r"
        "mOrigPromptLen r' = mOrigPromptLen r" "mReturnLogProbs r' = mReturnLogProbs r"
      unfolding pause_one_beam_eq [OF s True] n_def by (auto split: if_splits)
    from ok(1) have len: "int (length (take (nat n) bt)) = n"
      by (simp add: n_def)
    from assms(1) True have o: "0 \<le> mOrigPromptLen r"
      "mReturnLogProbs r \<longrightarrow> mOrigPromptLen r \<le> mPromptLen r"
      by (simp_all add: request_inv_def)
    from o ok(2) have "mReturnLogProbs r \<longrightarrow> mOrigPromptLen r \<le> n"
      by linarith
    with o(1) len show ?thesis
      by (simp add: request_inv_def f True del: length_take)
  next
    case F: False
    with False assms(1) have s: "mTokens r = []" "mLogProbs r = []"
      "nat (beamWidth (mSamplingConfig r)) = 0" "\<not> 0 < beamWidth (mSamplingConfig r)"
      by (auto simp: request_inv_def)
    from assms(2) have f: "mTokens r' = []" "mLogProbs r' = []"
        "mContextChunkSize r' = None" "mSamplingConfig r' = mSamplingConfig r"
        "mOrigPromptLen r' = mOrigPromptLen r"
      by (auto simp: pause_def getMaxNumGeneratedTokens_def getMaxBeamNumTokens_def s False Let_def)
    from assms(1) have "0 \<le> mOrigPromptLen r"
      by (simp add: request_inv_def)
    with s show ?thesis
      by (simp add: request_inv_def f)
  qed
qed

lemma setLogProbs_inv:
  assumes "request_inv r" "setLogProbs r logProbs beam = Inr r'"
  shows "request_inv r'"
  using assms by (auto simp: setLogProbs_def request_inv_def split: sum.splits)

lemma setCumLogProb_inv:
  assumes "request_inv r" "setCumLogProb r x beam = Inr r'"
  shows "request_inv r'"
  using assms by (auto simp: setCumLogProb_def request_inv_def split: sum.splits)

lemma setContextChunkSize_inv:
  assumes "request_inv r" "setContextChunkSize r s = Inr r'"
  shows "request_inv r'"
  using assms
  by (auto simp: setContextChunkSize_def request_inv_def getContextRemainingLength_def
      getContextCurrentPosition_def split: if_splits)

lemma moveToNextContextChunk_inv:
  assumes "request_inv r" "moveToNextContextChunk r = Inr r'"
  shows "request_inv r'"
  using assms
  by (auto simp: moveToNextContextChunk_def setContextChunkSize_def getContextChunkSize_def
      request_inv_def getContextRemainingLength_def getContextCurrentPosition_def
      isContextInitState_def split: if_splits)

lemma setters_inv:
  assumes "request_inv r"
  shows "request_inv (setMaxSentTokenPos r pos)"
    and "request_inv (setDraftTokens r dt)"
    and "request_inv (setDraftLogits r dl)"
    and "request_inv (addGenerationFragments r g)"
    and "request_inv (clearGenerationLogitsFragments r)"
    and "request_inv (r\<lparr>mState := s\<rparr>)"
    and "request_inv (r\<lparr>mSeqSlot := slot\<rparr>)"
  using assms
  by (simp_all add: request_inv_def setMaxSentTokenPos_def setDraftTokens_def setDraftLogits_def
      addGenerationFragments_def clearGenerationLogitsFragments_def)

lemma exec_inv: "request_inv r \<Longrightarrow> exec r c = Inr r' \<Longrightarrow> request_inv r'"
  by (cases c)
    (auto intro: addNewToken_inv addNewTokens_inv setGeneratedTokens_inv pause_inv setLogProbs_inv
      setCumLogProb_inv setContextChunkSize_inv moveToNextContextChunk_inv setters_inv)

lemma run_inv: "run r cs = Inr r' \<Longrightarrow> request_inv r \<Longrightarrow> request_inv r'"
  by (induction cs arbitrary: r) (auto split: sum.splits dest: exec_inv)

lemma history_inv: "history a cs = Inr r \<Longrightarrow> request_inv r"
  by (auto simp: history_def split: sum.splits dest: run_inv inv_constructed)

subsection \<open>Pause of a request with several beams\<close>

lemma pause_reset_loop_eq:
  assumes "0 \<le> pl" "\<forall>v\<in>set toks. pl \<le> int (length v)" "rlp \<longrightarrow> length lps = length toks"
  shows "pause_reset_loop pl rlp [i ..< length toks] (toks, lps) =
     Inr (take i toks @ map (take (nat pl)) (drop i toks),
          if rlp then take i lps @ map (\<lambda>_. []) (drop i lps) else lps)"
  using assms
proof (induction "length toks - i" arbitrary: i toks lps)
  case 0
  then show ?case by simp
next
  case (Suc k)
  then have i: "i < length toks"
    by simp
  let ?v = "take (nat pl) (toks ! i)"
  let ?toks = "toks[i := ?v]"
  let ?lps = "if rlp then lps[i := []] else lps"
  from i Suc.prems have ge: "pl \<le> int (length (toks ! i))"
    by simp
  with Suc.prems(1) have rs: "resize (toks ! i) pl = Inr ?v"
    by (simp add: resize_def)
  have step: "pause_reset_loop pl rlp [i ..< length toks] (toks, lps) =
      pause_reset_loop pl rlp [Suc i ..< length ?toks] (?toks, ?lps)"
    using i Suc.prems(3) rs by (simp add: upt_conv_Cons vec_at_nat)
  have a2: "\<forall>v\<in>set ?toks. pl \<le> int (length v)"
    using Suc.prems(1,2) ge by (intro all_ge_update) auto
  have "pause_reset_loop pl rlp [Suc i ..< length ?toks] (?toks, ?lps) =
     Inr (take (Suc i) ?toks @ map (take (nat pl)) (drop (Suc i) ?toks),
          if rlp then take (Suc i) ?lps @ map (\<lambda>_. []) (drop (Suc i) ?lps) else ?lps)"
    using Suc.hyps(2) Suc.prems(1,3) a2 by (intro Suc.hyps(1)) auto
  also have "take (Suc i) ?toks @ map (take (nat pl)) (drop (Suc i) ?toks)
      = take i toks @ map (take (nat pl)) (drop i toks)"
    using i by (simp add: take_Suc_conv_app_nth Cons_nth_drop_Suc [symmetric])
  also have "(if rlp then take (Suc i) ?lps @ map (\<lambda>_. []) (drop (Suc i) ?lps) else ?lps)
      = (if rlp then take i lps @ map (\<lambda>_. []) (drop i lps) else lps)"
    using i Suc.prems(3) by (simp add: take_Suc_conv_app_nth Cons_nth_drop_Suc [symmetric])
  finally show ?case
    using step by simp
qed

lemma pause_several_beams_eq:
  assumes "request_inv r" "1 < beamWidth (mSamplingConfig r)"
  shows "pause r m = Inr (r\<lparr>mTokens := map (take (nat (mOrigPromptLen r))) (mTokens r),
      mLogProbs := (if mReturnLogProbs r then map (\<lambda>_. []) (mLogProbs r) else mLogProbs r),
      mState := REQUEST_STATE_CONTEXT_INIT,
      mContextCurrentPosition := 0,
      mContextChunkSize := None,
      mSeqSlot := - 1\<rparr>)"
proof -
  from assms have pl: "mPromptLen r = mOrigPromptLen r" "0 \<le> mPromptLen r"
    and ge: "\<forall>v\<in>set (mTokens r). mPromptLen r \<le> int (length v)"
    and len: "length (mLogProbs r) = length (mTokens r)"
    by (auto simp: request_inv_def)
  from pause_reset_loop_eq [OF pl(2) ge, of "mReturnLogProbs r" "mLogProbs r" 0] len assms(2) pl(1)
  show ?thesis
    by (simp add: pause_def)
qed

subsection \<open>The example request\<close>

lemma exArgs_constructed:
  "0 \<le> bw \<Longrightarrow> GenericLlmRequest (exArgs bw rlp) = Inr \<lparr>
     mRequestId = 7, mPromptLen = 3, mMaxNewTokens = 16,
     mSamplingConfig = \<lparr>beamWidth = bw\<rparr>, mState = REQUEST_STATE_CONTEXT_INIT,
     mIsStreaming = False, mEndId = None, mPadId = None, mSeqSlot = - 1, mOrigPromptLen = 3,
     mTokens = replicate (nat bw) [11, 12, 13], mMaxSentTokenPos = 2,
     mEmbeddingBias = None, mBadWordsList = None, mStopWordsList = None,
     mPromptEmbeddingTable = None, mPromptVocabSize = None, mLoraWeights = None,
     mLoraConfig = None, mReturnLogProbs = rlp, mContextChunkSize = None,
     mContextCurrentPosition = 0, mLogProbs = replicate (nat bw) [],
     mCumLogProbs = replicate (nat bw) 0, mDraftTokens = [], mDraftLogits = None,
     mGenerationLogitsFragments = []\<rparr>"
  by (simp add: GenericLlmRequest_def exArgs_def vector_n_def)

lemma exHistory_Nil:
  "0 \<le> bw \<Longrightarrow> exHistory bw rlp [] = \<lparr>
     mRequestId = 7, mPromptLen = 3, mMaxNewTokens = 16,
     mSamplingConfig = \<lparr>beamWidth = bw\<rparr>, mState = REQUEST_STATE_CONTEXT_INIT,
     mIsStreaming = False, mEndId = None, mPadId = None, mSeqSlot = - 1, mOrigPromptLen = 3,
     mTokens = replicate (nat bw) [11, 12, 13], mMaxSentTokenPos = 2,
     mEmbeddingBias = None, mBadWordsList = None, mStopWordsList = None,
     mPromptEmbeddingTable = None, mPromptVocabSize = None, mLoraWeights = None,
     mLoraConfig = None, mReturnLogProbs = rlp, mContextChunkSize = None,
     mContextCurrentPosition = 0, mLogProbs = replicate (nat bw) [],
     mCumLogProbs = replicate (nat bw) 0, mDraftTokens = [], mDraftLogits = None,
     mGenerationLogitsFragments = []\<rparr>"
  by (simp add: exHistory_def history_def exArgs_constructed)

subsection \<open>What a call leaves alone\<close>

lemma pause_frame:
  assumes "pause r m = Inr r'"
  shows "mSamplingConfig r' = mSamplingConfig r \<and> mOrigPromptLen r' = mOrigPromptLen r \<and>
     mReturnLogProbs r' = mReturnLogProbs r \<and> mContextChunkSize r' = None \<and>
     mState r' = REQUEST_STATE_CONTEXT_INIT \<and>
     (1 < beamWidth (mSamplingConfig r) \<longrightarrow> mPromptLen r' = mPromptLen r)"
  using assms by (auto simp: pause_def Let_def split: sum.splits if_splits)

lemma exec_frame:
  assumes "exec r c = Inr r'"
  shows "mSamplingConfig r' = mSamplingConfig r \<and> mOrigPromptLen r' = mOrigPromptLen r \<and>
     mReturnLogProbs r' = mReturnLogProbs r \<and>
     (1 < beamWidth (mSamplingConfig r) \<longrightarrow> mPromptLen r' = mPromptLen r)"
proof (cases c)
  case (Pause m)
  with assms pause_frame [of r m r'] show ?thesis
    by simp
next
  case (SetContextChunkSize s)
  with assms show ?thesis
    by (auto simp: setContextChunkSize_def split: if_splits)
next
  case MoveToNextContextChunk
  with assms show ?thesis
    by (auto simp: moveToNextContextChunk_def setContextChunkSize_def getContextChunkSize_def
        split: if_splits)
qed (use assms in \<open>auto simp: addNewToken_def addNewTokens_def setGeneratedTokens_def
      setLogProbs_def setCumLogProb_def setMaxSentTokenPos_def setDraftTokens_def
      setDraftLogits_def addGenerationFragments_def clearGenerationLogitsFragments_def
      split: sum.splits if_splits\<close>)

lemma run_frame:
  "run r cs = Inr r' \<Longrightarrow>
   mSamplingConfig r' = mSamplingConfig r \<and> mOrigPromptLen r' = mOrigPromptLen r \<and>
   (1 < beamWidth (mSamplingConfig r) \<longrightarrow> mPromptLen r' = mPromptLen r)"
proof (induction cs arbitrary: r)
  case Nil
  then show ?case by simp
next
  case (Cons c cs)
  from Cons.prems obtain r1 where e: "exec r c = Inr r1" and rest: "run r1 cs = Inr r'"
    by (auto split: sum.splits)
  from exec_frame [OF e] Cons.IH [OF rest] show ?case
    by simp
qed

lemma history_frame:
  assumes "history a cs = Inr r"
  shows "mSamplingConfig r = samplingConfig a \<and>
     mOrigPromptLen r = int (length (inputTokens a)) \<and>
     (1 < beamWidth (samplingConfig a) \<longrightarrow> mPromptLen r = int (length (inputTokens a)))"
proof -
  from assms obtain r0 where c: "GenericLlmRequest a = Inr r0" and rn: "run r0 cs = Inr r"
    by (auto simp: history_def split: sum.splits)
  from c have "mSamplingConfig r0 = samplingConfig a"
    "mOrigPromptLen r0 = int (length (inputTokens a))"
    "mPromptLen r0 = int (length (inputTokens a))"
    by (auto simp: GenericLlmRequest_def split: sum.splits if_splits)
  with run_frame [OF rn] show ?thesis
    by simp
qed

subsection \<open>The chunk size along a history\<close>

lemma exec_chunk:
  assumes "exec r c = Inr r'"
  shows "(mContextChunkSize r' \<noteq> None) =
     (case c of SetContextChunkSize _ \<Rightarrow> True | Pause _ \<Rightarrow> False
      | _ \<Rightarrow> mContextChunkSize r \<noteq> None)"
proof (cases c)
  case (Pause m)
  with assms pause_frame [of r m r'] show ?thesis
    by simp
next
  case (SetContextChunkSize s)
  with assms show ?thesis
    by (auto simp: setContextChunkSize_def split: if_splits)
next
  case MoveToNextContextChunk
  with assms show ?thesis
    by (auto simp: moveToNextContextChunk_def setContextChunkSize_def getContextChunkSize_def
        split: if_splits)
qed (use assms in \<open>auto simp: addNewToken_def addNewTokens_def setGeneratedTokens_def
      setLogProbs_def setCumLogProb_def setMaxSentTokenPos_def setDraftTokens_def
      setDraftLogits_def addGenerationFragments_def clearGenerationLogitsFragments_def
      split: sum.splits if_splits\<close>)

lemma chunk_flag_Cons:
  "chunk_flag b (c # cs) =
     chunk_flag (case c of SetContextChunkSize _ \<Rightarrow> True | Pause _ \<Rightarrow> False | _ \<Rightarrow> b) cs"
  by (cases c) simp_all

lemma run_chunk_flag:
  "run r cs = Inr r' \<Longrightarrow>
   (mContextChunkSize r' \<noteq> None) = chunk_flag (mContextChunkSize r \<noteq> None) cs"
proof (induction cs arbitrary: r)
  case Nil
  then show ?case by simp
next
  case (Cons c cs)
  from Cons.prems obtain r1 where e: "exec r c = Inr r1" and rest: "run r1 cs = Inr r'"
    by (auto split: sum.splits)
  from Cons.IH [OF rest] exec_chunk [OF e] show ?case
    by (simp only: chunk_flag_Cons)
qed

lemma history_chunk_flag:
  assumes "history a cs = Inr r"
  shows "(mContextChunkSize r \<noteq> None) = assigned_since_reset cs"
proof -
  from assms obtain r0 where c: "GenericLlmRequest a = Inr r0" and rn: "run r0 cs = Inr r"
    by (auto simp: history_def split: sum.splits)
  from c have "mContextChunkSize r0 = None"
    by (auto simp: GenericLlmRequest_def split: sum.splits if_splits)
  with run_chunk_flag [OF rn] show ?thesis
    by (simp add: assigned_since_reset_def)
qed

lemma chunk_flag_never: "\<not> list_ex assigns_chunk cs \<Longrightarrow> \<not> b \<Longrightarrow> \<not> chunk_flag b cs"
proof (induction cs arbitrary: b)
  case Nil
  then show ?case by simp
next
  case (Cons c cs)
  then show ?case by (cases c) simp_all
qed

lemma never_assigned: "\<not> ever_assigned cs \<Longrightarrow> \<not> assigned_since_reset cs"
  by (simp add: ever_assigned_def assigned_since_reset_def chunk_flag_never)


lemmas ex_eval =
  history_def exArgs_constructed exHistory_def
  addNewToken_def addNewTokens_def setGeneratedTokens_def pause_def setLogProbs_def
  setCumLogProb_def setMaxSentTokenPos_def setContextChunkSize_def moveToNextContextChunk_def
  getContextChunkSize_def getContextRemainingLength_def getContextCurrentPosition_def
  isContextInitState_def getMaxNumGeneratedTokens_def getMaxBeamNumTokens_def
  vec_at_def resize_def Let_def

section \<open>The claims\<close>

text \<open>
  C6. \<^verbatim>\<open>setContextChunkSize(size)\<close> fails exactly when the request is not in
  \<open>ContextInit\<close> or \<open>size < 0\<close>, and its failure is the failed check; otherwise it
  sets the chunk size to \<open>min(size, promptLen - position)\<close> and changes no other member.
  The statement is about every record of the request type, whatever its history.
\<close>

theorem setContextChunkSize_spec:
  "(isl (setContextChunkSize r s) \<longleftrightarrow> mState r \<noteq> REQUEST_STATE_CONTEXT_INIT \<or> s < 0) \<and>
   (isl (setContextChunkSize r s) \<longrightarrow> setContextChunkSize r s = Inl TllmException) \<and>
   (mState r = REQUEST_STATE_CONTEXT_INIT \<and> 0 \<le> s \<longrightarrow>
      setContextChunkSize r s =
        Inr (r\<lparr>mContextChunkSize := Some (min s (mPromptLen r - mContextCurrentPosition r))\<rparr>))"
  by (simp add: setContextChunkSize_def isContextInitState_def getContextRemainingLength_def
      getContextCurrentPosition_def)

theorem setContextChunkSize_spec_witness:
  "mState (exHistory 1 False []) = REQUEST_STATE_CONTEXT_INIT \<and> (0::int) \<le> 5 \<and>
   setContextChunkSize (exHistory 1 False []) 5 =
     Inr ((exHistory 1 False [])\<lparr>mContextChunkSize := Some 3\<rparr>) \<and>
   setContextChunkSize (exHistory 1 False []) 2 =
     Inr ((exHistory 1 False [])\<lparr>mContextChunkSize := Some 2\<rparr>) \<and>
   setContextChunkSize (exHistory 1 False []) (- 1) = Inl TllmException \<and>
   setContextChunkSize ((exHistory 1 False [])\<lparr>mState := REQUEST_STATE_GENERATION_IN_PROGRESS\<rparr>) 5
     = Inl TllmException"
  using setContextChunkSize_spec [of "exHistory 1 False []" 5]
    setContextChunkSize_spec [of "exHistory 1 False []" 2]
    setContextChunkSize_spec [of "exHistory 1 False []" "- 1"]
    setContextChunkSize_spec
      [of "(exHistory 1 False [])\<lparr>mState := REQUEST_STATE_GENERATION_IN_PROGRESS\<rparr>" 5]
  by (simp add: exHistory_Nil)

text \<open>
  C10. A successful construction from a prompt of length \<open>L\<close> with beam width \<open>B\<close>
  yields exactly \<open>B\<close> beam token sequences, each equal to the prompt, with
  \<open>maxSentTokenPos = L - 1\<close> and state \<open>ContextInit\<close>.
\<close>

theorem construction_result:
  assumes "GenericLlmRequest a = Inr r"
  shows "int (length (mTokens r)) = beamWidth (samplingConfig a) \<and>
         (\<forall>beam < length (mTokens r). mTokens r ! beam = inputTokens a) \<and>
         mMaxSentTokenPos r = int (length (inputTokens a)) - 1 \<and>
         mState r = REQUEST_STATE_CONTEXT_INIT"
  using assms
  by (auto simp: GenericLlmRequest_def vector_n_def split: if_splits)

theorem construction_result_witness:
  "GenericLlmRequest (exArgs 2 False) = Inr (exHistory 2 False []) \<and>
   mTokens (exHistory 2 False []) = [[11, 12, 13], [11, 12, 13]] \<and>
   mMaxSentTokenPos (exHistory 2 False []) = 2 \<and>
   mState (exHistory 2 False []) = REQUEST_STATE_CONTEXT_INIT"
proof -
  have c: "GenericLlmRequest (exArgs 2 False) = Inr (exHistory 2 False [])"
    by (simp add: exArgs_constructed exHistory_Nil)
  have "mTokens (exHistory 2 False []) = [[11, 12, 13], [11, 12, 13]]"
    by (simp add: exHistory_Nil numeral_2_eq_2)
  with c construction_result [OF c] show ?thesis
    by (simp add: exArgs_def)
qed

text \<open>
  C9. Construction fails if and only if exactly one of the prompt-tuning embedding table
  and the prompt vocab size is given, or draft logits are given without draft tokens; the
  failure is then the constructor's \<^verbatim>\<open>std::runtime_error\<close> and no request exists.
  Stated for the beam widths a request can have (\<open>0 \<le> beamWidth\<close>; the construction
  contract asks for at least 1): the constructor has to create \<open>beamWidth\<close> beams before
  its body runs.
\<close>

theorem construction_errors:
  assumes "0 \<le> beamWidth (samplingConfig a)"
  shows "(isl (GenericLlmRequest a) \<longleftrightarrow>
            (promptEmbeddingTable a \<noteq> None \<and> promptVocabSize a = None)
          \<or> (promptEmbeddingTable a = None \<and> promptVocabSize a \<noteq> None)
          \<or> (draftLogits a \<noteq> None \<and> draftTokens a = None)) \<and>
         (isl (GenericLlmRequest a) \<longrightarrow>
            GenericLlmRequest a = Inl (RuntimeError errPromptTuning)
          \<or> GenericLlmRequest a = Inl (RuntimeError errDraft))"
  using assms by (simp add: GenericLlmRequest_def vector_n_def)

theorem construction_errors_witness:
  "\<not> isl (GenericLlmRequest (exArgs 1 False)) \<and>
   \<not> isl (GenericLlmRequest ((exArgs 1 False)\<lparr>draftTokens := Some [5], draftLogits := Some ()\<rparr>)) \<and>
   \<not> isl (GenericLlmRequest ((exArgs 1 False)\<lparr>draftTokens := Some [5]\<rparr>)) \<and>
   isl (GenericLlmRequest ((exArgs 1 False)\<lparr>draftLogits := Some ()\<rparr>)) \<and>
   isl (GenericLlmRequest ((exArgs 1 False)\<lparr>promptEmbeddingTable := Some ()\<rparr>)) \<and>
   isl (GenericLlmRequest ((exArgs 1 False)\<lparr>promptVocabSize := Some 8\<rparr>)) \<and>
   \<not> isl (GenericLlmRequest
      ((exArgs 1 False)\<lparr>promptEmbeddingTable := Some (), promptVocabSize := Some 8\<rparr>))"
  using construction_errors [of "exArgs 1 False"]
    construction_errors [of "(exArgs 1 False)\<lparr>draftTokens := Some [5], draftLogits := Some ()\<rparr>"]
    construction_errors [of "(exArgs 1 False)\<lparr>draftTokens := Some [5]\<rparr>"]
    construction_errors [of "(exArgs 1 False)\<lparr>draftLogits := Some ()\<rparr>"]
    construction_errors [of "(exArgs 1 False)\<lparr>promptEmbeddingTable := Some ()\<rparr>"]
    construction_errors [of "(exArgs 1 False)\<lparr>promptVocabSize := Some 8\<rparr>"]
    construction_errors
      [of "(exArgs 1 False)\<lparr>promptEmbeddingTable := Some (), promptVocabSize := Some 8\<rparr>"]
  by (simp add: exArgs_def)

text \<open>
  C8. As stated (\<^verbatim>\<open>isFullContextRequest()\<close> is true if and only if no chunk size was
  ever assigned) the claim fails twice: \<^verbatim>\<open>pause\<close> clears the chunk size, so a request
  that was chunked and then paused is a full-context request again; and a request that
  left \<open>ContextInit\<close> is not one, chunked or not.
\<close>

theorem isFullContextRequest_counterexample:
  "history (exArgs 1 False) [SetContextChunkSize 2, Pause 3]
     = Inr (exHistory 1 False [SetContextChunkSize 2, Pause 3]) \<and>
   isFullContextRequest (exHistory 1 False [SetContextChunkSize 2, Pause 3]) \<and>
   ever_assigned [SetContextChunkSize 2, Pause 3 :: unit call] \<and>
   history (exArgs 1 False) [SetState REQUEST_STATE_GENERATION_IN_PROGRESS]
     = Inr (exHistory 1 False [SetState REQUEST_STATE_GENERATION_IN_PROGRESS]) \<and>
   \<not> isFullContextRequest (exHistory 1 False [SetState REQUEST_STATE_GENERATION_IN_PROGRESS]) \<and>
   \<not> ever_assigned [SetState REQUEST_STATE_GENERATION_IN_PROGRESS :: unit call]"
  by (simp add: ex_eval isFullContextRequest_def ever_assigned_def)

text \<open>
  C8, amended. For every request a history produces, \<^verbatim>\<open>isFullContextRequest()\<close> is
  true if and only if the request is in \<open>ContextInit\<close> and no chunk size has been
  assigned by \<^verbatim>\<open>setContextChunkSize\<close> since the construction or the last
  \<^verbatim>\<open>pause\<close>.
\<close>

theorem isFullContextRequest_iff:
  assumes "history a cs = Inr r"
  shows "isFullContextRequest r \<longleftrightarrow>
     mState r = REQUEST_STATE_CONTEXT_INIT \<and> \<not> assigned_since_reset cs"
  using history_chunk_flag [OF assms]
  by (auto simp: isFullContextRequest_def isContextInitState_def)

theorem isFullContextRequest_iff_witness:
  "history (exArgs 1 False) [SetContextChunkSize 2, Pause 3]
     = Inr (exHistory 1 False [SetContextChunkSize 2, Pause 3]) \<and>
   isFullContextRequest (exHistory 1 False [SetContextChunkSize 2, Pause 3]) \<and>
   mState (exHistory 1 False [SetContextChunkSize 2, Pause 3]) = REQUEST_STATE_CONTEXT_INIT \<and>
   \<not> assigned_since_reset [SetContextChunkSize 2, Pause 3 :: unit call] \<and>
   history (exArgs 1 False) [Pause 3, SetContextChunkSize 2]
     = Inr (exHistory 1 False [Pause 3, SetContextChunkSize 2]) \<and>
   \<not> isFullContextRequest (exHistory 1 False [Pause 3, SetContextChunkSize 2]) \<and>
   assigned_since_reset [Pause 3, SetContextChunkSize 2 :: unit call]"
proof -
  have h1: "history (exArgs 1 False) [SetContextChunkSize 2, Pause 3]
     = Inr (exHistory 1 False [SetContextChunkSize 2, Pause 3])"
    by (simp add: ex_eval)
  have h2: "history (exArgs 1 False) [Pause 3, SetContextChunkSize 2]
     = Inr (exHistory 1 False [Pause 3, SetContextChunkSize 2])"
    by (simp add: ex_eval)
  have s: "mState (exHistory 1 False [SetContextChunkSize 2, Pause 3]) = REQUEST_STATE_CONTEXT_INIT"
    by (simp add: ex_eval)
  from h1 h2 s isFullContextRequest_iff [OF h1] isFullContextRequest_iff [OF h2] show ?thesis
    by (simp add: assigned_since_reset_def)
qed

text \<open>
  C7. As stated (the branch taken depends on whether a chunk size has been assigned, or
  was ever assigned) the claim fails: \<^verbatim>\<open>pause\<close> clears the chunk size, so a request
  to which a chunk size was assigned and which was then paused takes the unchunked
  branch: the position goes from 0 to \<open>promptLen\<close> in one step and the chunk size stays
  unset, instead of advancing by the chunk size and setting it to 0.
\<close>

theorem moveToNextContextChunk_counterexample:
  "history (exArgs 1 False) [SetContextChunkSize 2, Pause 3]
     = Inr (exHistory 1 False [SetContextChunkSize 2, Pause 3]) \<and>
   ever_assigned [SetContextChunkSize 2, Pause 3 :: unit call] \<and>
   mState (exHistory 1 False [SetContextChunkSize 2, Pause 3]) = REQUEST_STATE_CONTEXT_INIT \<and>
   mContextCurrentPosition (exHistory 1 False [SetContextChunkSize 2, Pause 3]) = 0 \<and>
   mPromptLen (exHistory 1 False [SetContextChunkSize 2, Pause 3]) = 3 \<and>
   map_sum id mContextCurrentPosition
     (moveToNextContextChunk (exHistory 1 False [SetContextChunkSize 2, Pause 3])) = Inr 3 \<and>
   map_sum id mContextChunkSize
     (moveToNextContextChunk (exHistory 1 False [SetContextChunkSize 2, Pause 3])) = Inr None"
proof -
  let ?r = "exHistory 1 False [SetContextChunkSize 2, Pause 3]"
  have h: "history (exArgs 1 False) [SetContextChunkSize 2, Pause 3] = Inr ?r"
    by (simp add: ex_eval)
  have f: "mState ?r = REQUEST_STATE_CONTEXT_INIT" "mContextCurrentPosition ?r = 0"
    "mPromptLen ?r = 3" "mContextChunkSize ?r = None"
    by (simp_all add: ex_eval)
  have m: "moveToNextContextChunk ?r = Inr (?r\<lparr>mContextCurrentPosition := 3\<rparr>)"
    by (simp add: moveToNextContextChunk_def isContextInitState_def f)
  have e: "ever_assigned [SetContextChunkSize 2, Pause 3 :: unit call]"
    by (simp add: ever_assigned_def)
  have c: "map_sum id mContextCurrentPosition (moveToNextContextChunk ?r) = Inr 3"
    "map_sum id mContextChunkSize (moveToNextContextChunk ?r) = Inr None"
    unfolding m by (simp_all add: f)
  show ?thesis
    by (intro conjI) (rule h e f c)+
qed

text \<open>
  C7, amended. For every request a history produces: \<^verbatim>\<open>moveToNextContextChunk()\<close> fails
  when the request is not in \<open>ContextInit\<close>; in \<open>ContextInit\<close>, if a chunk size has been
  assigned since the construction or the last \<^verbatim>\<open>pause\<close>, the request holds a chunk
  size \<open>c\<close>, and the call advances the position by \<open>c\<close> and sets the chunk size to 0; if
  none has been assigned since then, the call fails unless the position is 0, and then
  sets the position to \<open>promptLen\<close>. A chunk size is held exactly when one has been
  assigned since the construction or the last \<^verbatim>\<open>pause\<close>; a request to which none was
  ever assigned holds none.
\<close>

theorem moveToNextContextChunk_spec:
  assumes "history a cs = Inr r"
  shows "(mState r \<noteq> REQUEST_STATE_CONTEXT_INIT \<longrightarrow> moveToNextContextChunk r = Inl TllmException) \<and>
     (mState r = REQUEST_STATE_CONTEXT_INIT \<longrightarrow>
        (assigned_since_reset cs \<longrightarrow>
           (\<exists>c. mContextChunkSize r = Some c \<and>
              moveToNextContextChunk r =
                Inr (r\<lparr>mContextCurrentPosition := mContextCurrentPosition r + c,
                       mContextChunkSize := Some 0\<rparr>))) \<and>
        (\<not> assigned_since_reset cs \<and> mContextCurrentPosition r = 0 \<longrightarrow>
           moveToNextContextChunk r = Inr (r\<lparr>mContextCurrentPosition := mPromptLen r\<rparr>)) \<and>
        (\<not> assigned_since_reset cs \<and> mContextCurrentPosition r \<noteq> 0 \<longrightarrow>
           moveToNextContextChunk r = Inl TllmException)) \<and>
     (assigned_since_reset cs \<longleftrightarrow> mContextChunkSize r \<noteq> None) \<and>
     (\<not> ever_assigned cs \<longrightarrow> mContextChunkSize r = None)"
proof -
  from history_inv [OF assms]
  have le: "\<forall>c. mContextChunkSize r = Some c \<longrightarrow> mContextCurrentPosition r + c \<le> mPromptLen r"
    by (simp add: request_inv_def)
  note fl = history_chunk_flag [OF assms]
  from fl never_assigned [of cs]
  have nv: "\<not> ever_assigned cs \<longrightarrow> mContextChunkSize r = None"
    by auto
  have a: "mState r \<noteq> REQUEST_STATE_CONTEXT_INIT \<longrightarrow> moveToNextContextChunk r = Inl TllmException"
    by (simp add: moveToNextContextChunk_def isContextInitState_def)
  have b: "mState r = REQUEST_STATE_CONTEXT_INIT \<and> mContextChunkSize r = Some c \<longrightarrow>
      moveToNextContextChunk r =
        Inr (r\<lparr>mContextCurrentPosition := mContextCurrentPosition r + c,
               mContextChunkSize := Some 0\<rparr>)" for c
    using le
    by (auto simp: moveToNextContextChunk_def setContextChunkSize_def getContextChunkSize_def
        getContextRemainingLength_def getContextCurrentPosition_def isContextInitState_def)
  have c: "mState r = REQUEST_STATE_CONTEXT_INIT \<and> mContextChunkSize r = None \<longrightarrow>
      moveToNextContextChunk r =
        (if mContextCurrentPosition r = 0 then Inr (r\<lparr>mContextCurrentPosition := mPromptLen r\<rparr>)
         else Inl TllmException)"
    by (simp add: moveToNextContextChunk_def isContextInitState_def)
  from fl have d: "assigned_since_reset cs \<longrightarrow> (\<exists>c. mContextChunkSize r = Some c)"
    "\<not> assigned_since_reset cs \<longrightarrow> mContextChunkSize r = None"
    by auto
  have e: "assigned_since_reset cs \<longrightarrow>
      (\<exists>c. mContextChunkSize r = Some c \<and>
         moveToNextContextChunk r =
           Inr (r\<lparr>mContextCurrentPosition := mContextCurrentPosition r + c,
                  mContextChunkSize := Some 0\<rparr>))"
    if "mState r = REQUEST_STATE_CONTEXT_INIT"
    using that b d(1) by blast
  have g: "\<not> assigned_since_reset cs \<and> mContextCurrentPosition r = 0 \<longrightarrow>
      moveToNextContextChunk r = Inr (r\<lparr>mContextCurrentPosition := mPromptLen r\<rparr>)"
    if "mState r = REQUEST_STATE_CONTEXT_INIT"
    using that c d(2) by simp
  have g': "\<not> assigned_since_reset cs \<and> mContextCurrentPosition r \<noteq> 0 \<longrightarrow>
      moveToNextContextChunk r = Inl TllmException"
    if "mState r = REQUEST_STATE_CONTEXT_INIT"
    using that c d(2) by simp
  from fl have fl': "assigned_since_reset cs \<longleftrightarrow> mContextChunkSize r \<noteq> None"
    by simp
  show ?thesis
    by (intro conjI impI) (rule a [rule_format] e [rule_format] g [rule_format]
      g' [rule_format] nv [rule_format] fl'; assumption)+
qed


theorem moveToNextContextChunk_spec_witness:
  "history (exArgs 1 False) [SetContextChunkSize 2]
     = Inr (exHistory 1 False [SetContextChunkSize 2]) \<and>
   mState (exHistory 1 False [SetContextChunkSize 2]) = REQUEST_STATE_CONTEXT_INIT \<and>
   assigned_since_reset [SetContextChunkSize 2 :: unit call] \<and>
   mContextChunkSize (exHistory 1 False [SetContextChunkSize 2]) = Some 2 \<and>
   moveToNextContextChunk (exHistory 1 False [SetContextChunkSize 2])
     = Inr ((exHistory 1 False [SetContextChunkSize 2])
         \<lparr>mContextCurrentPosition := 2, mContextChunkSize := Some 0\<rparr>) \<and>
   history (exArgs 1 False) [] = Inr (exHistory 1 False []) \<and>
   \<not> ever_assigned ([] :: unit call list) \<and>
   mContextChunkSize (exHistory 1 False []) = None \<and>
   moveToNextContextChunk (exHistory 1 False [])
     = Inr ((exHistory 1 False [])\<lparr>mContextCurrentPosition := 3\<rparr>) \<and>
   history (exArgs 1 False) [SetContextChunkSize 2, Pause 3]
     = Inr (exHistory 1 False [SetContextChunkSize 2, Pause 3]) \<and>
   \<not> assigned_since_reset [SetContextChunkSize 2, Pause 3 :: unit call] \<and>
   moveToNextContextChunk (exHistory 1 False [SetContextChunkSize 2, Pause 3])
     = Inr ((exHistory 1 False [SetContextChunkSize 2, Pause 3])\<lparr>mContextCurrentPosition := 3\<rparr>) \<and>
   history (exArgs 1 False) [MoveToNextContextChunk]
     = Inr (exHistory 1 False [MoveToNextContextChunk]) \<and>
   moveToNextContextChunk (exHistory 1 False [MoveToNextContextChunk]) = Inl TllmException \<and>
   history (exArgs 1 False) [SetState REQUEST_STATE_GENERATION_IN_PROGRESS]
     = Inr (exHistory 1 False [SetState REQUEST_STATE_GENERATION_IN_PROGRESS]) \<and>
   moveToNextContextChunk (exHistory 1 False [SetState REQUEST_STATE_GENERATION_IN_PROGRESS])
     = Inl TllmException"
proof -
  have h1: "history (exArgs 1 False) [SetContextChunkSize 2]
     = Inr (exHistory 1 False [SetContextChunkSize 2])"
    by (simp add: ex_eval)
  have h2: "history (exArgs 1 False) [] = Inr (exHistory 1 False [])"
    by (simp add: ex_eval)
  have h3: "history (exArgs 1 False) [MoveToNextContextChunk]
     = Inr (exHistory 1 False [MoveToNextContextChunk])"
    by (simp add: ex_eval)
  have h4: "history (exArgs 1 False) [SetState REQUEST_STATE_GENERATION_IN_PROGRESS]
     = Inr (exHistory 1 False [SetState REQUEST_STATE_GENERATION_IN_PROGRESS])"
    by (simp add: ex_eval)
  have h5: "history (exArgs 1 False) [SetContextChunkSize 2, Pause 3]
     = Inr (exHistory 1 False [SetContextChunkSize 2, Pause 3])"
    by (simp add: ex_eval)
  have f: "mState (exHistory 1 False [SetContextChunkSize 2]) = REQUEST_STATE_CONTEXT_INIT"
    "mContextChunkSize (exHistory 1 False [SetContextChunkSize 2]) = Some 2"
    "mContextCurrentPosition (exHistory 1 False [SetContextChunkSize 2]) = 0"
    "mState (exHistory 1 False []) = REQUEST_STATE_CONTEXT_INIT"
    "mContextCurrentPosition (exHistory 1 False []) = 0"
    "mPromptLen (exHistory 1 False []) = 3"
    "mState (exHistory 1 False [MoveToNextContextChunk]) = REQUEST_STATE_CONTEXT_INIT"
    "mContextCurrentPosition (exHistory 1 False [MoveToNextContextChunk]) = 3"
    "mState (exHistory 1 False [SetState REQUEST_STATE_GENERATION_IN_PROGRESS])
       = REQUEST_STATE_GENERATION_IN_PROGRESS"
    "mState (exHistory 1 False [SetContextChunkSize 2, Pause 3]) = REQUEST_STATE_CONTEXT_INIT"
    "mContextCurrentPosition (exHistory 1 False [SetContextChunkSize 2, Pause 3]) = 0"
    "mPromptLen (exHistory 1 False [SetContextChunkSize 2, Pause 3]) = 3"
    by (simp_all add: ex_eval)
  have g: "assigned_since_reset [SetContextChunkSize 2 :: unit call]"
    "\<not> assigned_since_reset ([] :: unit call list)"
    "\<not> assigned_since_reset [MoveToNextContextChunk :: unit call]"
    "\<not> assigned_since_reset [SetContextChunkSize 2, Pause 3 :: unit call]"
    "\<not> ever_assigned ([] :: unit call list)"
    by (simp_all add: assigned_since_reset_def ever_assigned_def)
  from moveToNextContextChunk_spec [OF h1] f(1,2,3) g(1)
  have m1: "moveToNextContextChunk (exHistory 1 False [SetContextChunkSize 2])
     = Inr ((exHistory 1 False [SetContextChunkSize 2])
         \<lparr>mContextCurrentPosition := 2, mContextChunkSize := Some 0\<rparr>)"
    by auto
  from moveToNextContextChunk_spec [OF h2] f(4,5,6) g(2,5)
  have m2: "mContextChunkSize (exHistory 1 False []) = None"
    "moveToNextContextChunk (exHistory 1 False [])
     = Inr ((exHistory 1 False [])\<lparr>mContextCurrentPosition := 3\<rparr>)"
    by auto
  from moveToNextContextChunk_spec [OF h3] f(7,8) g(3)
  have m3: "moveToNextContextChunk (exHistory 1 False [MoveToNextContextChunk]) = Inl TllmException"
    by auto
  from moveToNextContextChunk_spec [OF h4] f(9)
  have m4: "moveToNextContextChunk (exHistory 1 False [SetState REQUEST_STATE_GENERATION_IN_PROGRESS])
     = Inl TllmException"
    by auto
  from moveToNextContextChunk_spec [OF h5] f(10,11,12) g(4)
  have m5: "moveToNextContextChunk (exHistory 1 False [SetContextChunkSize 2, Pause 3])
     = Inr ((exHistory 1 False [SetContextChunkSize 2, Pause 3])\<lparr>mContextCurrentPosition := 3\<rparr>)"
    by auto
  show ?thesis
    by (intro conjI) (rule h1 h2 h3 h4 h5 f g m1 m2 m3 m4 m5)+
qed

text \<open>
  C3. A request with more than one beam has \<open>promptLen = origPromptLen\<close>: the equation
  holds after construction (for any beam width), every call that succeeds on a request
  with more than one beam keeps the beam width and the equation, \<^verbatim>\<open>pause\<close> on such a
  request leaves \<open>promptLen\<close> as it is, and so every request with more than one beam
  that a history produces has \<open>promptLen = origPromptLen\<close>, the length of the prompt it
  was constructed from.
\<close>

theorem multi_beam_promptLen_invariant:
  "(GenericLlmRequest a = Inr r0 \<longrightarrow> mPromptLen r0 = mOrigPromptLen r0) \<and>
   (1 < beamWidth (mSamplingConfig r) \<and> mPromptLen r = mOrigPromptLen r \<and> exec r c = Inr r' \<longrightarrow>
      1 < beamWidth (mSamplingConfig r') \<and> mPromptLen r' = mOrigPromptLen r') \<and>
   (1 < beamWidth (mSamplingConfig p) \<and> pause p maxInputLen = Inr p' \<longrightarrow>
      mPromptLen p' = mPromptLen p) \<and>
   (history a cs = Inr h \<and> 1 < beamWidth (mSamplingConfig h) \<longrightarrow>
      mPromptLen h = mOrigPromptLen h \<and> mOrigPromptLen h = int (length (inputTokens a)))"
proof (intro conjI impI)
  assume "GenericLlmRequest a = Inr r0"
  then show "mPromptLen r0 = mOrigPromptLen r0"
    by (auto simp: GenericLlmRequest_def split: sum.splits if_splits)
next
  assume a: "1 < beamWidth (mSamplingConfig r) \<and> mPromptLen r = mOrigPromptLen r \<and> exec r c = Inr r'"
  with exec_frame [of r c r'] show "1 < beamWidth (mSamplingConfig r')"
    by simp
  from a exec_frame [of r c r'] show "mPromptLen r' = mOrigPromptLen r'"
    by simp
next
  assume "1 < beamWidth (mSamplingConfig p) \<and> pause p maxInputLen = Inr p'"
  with pause_frame [of p maxInputLen p'] show "mPromptLen p' = mPromptLen p"
    by simp
next
  assume a: "history a cs = Inr h \<and> 1 < beamWidth (mSamplingConfig h)"
  with history_frame [of a cs h] show "mPromptLen h = mOrigPromptLen h"
    by simp
  from a history_frame [of a cs h] show "mOrigPromptLen h = int (length (inputTokens a))"
    by simp
qed

theorem multi_beam_promptLen_invariant_witness:
  "GenericLlmRequest (exArgs 2 True) = Inr (exHistory 2 True []) \<and>
   mPromptLen (exHistory 2 True []) = mOrigPromptLen (exHistory 2 True []) \<and>
   (1::int) < beamWidth (mSamplingConfig (exHistory 2 True [])) \<and>
   exec (exHistory 2 True []) (AddNewTokens [21, 22]) = Inr (exHistory 2 True [AddNewTokens [21, 22]]) \<and>
   mPromptLen (exHistory 2 True [AddNewTokens [21, 22]]) = 3 \<and>
   mOrigPromptLen (exHistory 2 True [AddNewTokens [21, 22]]) = 3 \<and>
   pause (exHistory 2 True [AddNewTokens [21, 22]]) 4
     = Inr (exHistory 2 True [AddNewTokens [21, 22], Pause 4]) \<and>
   history (exArgs 2 True) [AddNewTokens [21, 22], Pause 4]
     = Inr (exHistory 2 True [AddNewTokens [21, 22], Pause 4]) \<and>
   mPromptLen (exHistory 2 True [AddNewTokens [21, 22], Pause 4]) = 3"
proof -
  have c: "GenericLlmRequest (exArgs 2 True) = Inr (exHistory 2 True [])"
    by (simp add: ex_eval)
  have b: "(1::int) < beamWidth (mSamplingConfig (exHistory 2 True []))"
    "(1::int) < beamWidth (mSamplingConfig (exHistory 2 True [AddNewTokens [21, 22]]))"
    "(1::int) < beamWidth (mSamplingConfig (exHistory 2 True [AddNewTokens [21, 22], Pause 4]))"
    by (simp_all add: ex_eval numeral_2_eq_2)
  have e: "exec (exHistory 2 True []) (AddNewTokens [21, 22])
      = Inr (exHistory 2 True [AddNewTokens [21, 22]])"
    by (simp add: ex_eval numeral_2_eq_2)
  have p: "pause (exHistory 2 True [AddNewTokens [21, 22]]) 4
      = Inr (exHistory 2 True [AddNewTokens [21, 22], Pause 4])"
    by (simp add: ex_eval numeral_2_eq_2)
  have h: "history (exArgs 2 True) [AddNewTokens [21, 22], Pause 4]
      = Inr (exHistory 2 True [AddNewTokens [21, 22], Pause 4])"
    by (simp add: ex_eval numeral_2_eq_2)
  have o: "mOrigPromptLen (exHistory 2 True []) = 3"
    by (simp add: ex_eval)
  have l: "length (inputTokens (exArgs 2 True)) = 3"
    by (simp add: exArgs_def)
  have o': "mOrigPromptLen (exHistory 2 True [AddNewTokens [21, 22]]) = 3"
    by (simp add: ex_eval numeral_2_eq_2)
  from c b e p h o o' l
    multi_beam_promptLen_invariant [of "exArgs 2 True" "exHistory 2 True []"
      "exHistory 2 True []" "AddNewTokens [21, 22]" "exHistory 2 True [AddNewTokens [21, 22]]"
      "exHistory 2 True [AddNewTokens [21, 22]]" 4
      "exHistory 2 True [AddNewTokens [21, 22], Pause 4]"
      "[AddNewTokens [21, 22], Pause 4]" "exHistory 2 True [AddNewTokens [21, 22], Pause 4]"]
  show ?thesis
    by simp
qed

text \<open>
  C2. For every request with more than one beam that a history produces, whatever was
  generated, \<^verbatim>\<open>pause(maxInputLen)\<close> succeeds and cuts every beam to its first
  \<open>origPromptLen\<close> tokens (each beam then has exactly the length of the prompt the
  request was constructed from), empties every log-prob sequence when log-probs are
  returned, resets cursor, chunk size and slot, sets the state to \<open>ContextInit\<close> and
  changes nothing else: \<open>promptLen\<close> and the budget \<open>mMaxNewTokens\<close> are as before.
\<close>

theorem pause_multi_beam:
  assumes "history a cs = Inr r" and "1 < beamWidth (mSamplingConfig r)"
  shows "pause r maxInputLen =
      Inr (r\<lparr>mTokens := map (take (nat (mOrigPromptLen r))) (mTokens r),
             mLogProbs := (if mReturnLogProbs r then map (\<lambda>_. []) (mLogProbs r)
                           else mLogProbs r),
             mState := REQUEST_STATE_CONTEXT_INIT,
             mContextCurrentPosition := 0,
             mContextChunkSize := None,
             mSeqSlot := - 1\<rparr>) \<and>
     (\<forall>v \<in> set (mTokens r). int (length (take (nat (mOrigPromptLen r)) v)) = mOrigPromptLen r) \<and>
     mOrigPromptLen r = int (length (inputTokens a)) \<and>
     (\<forall>r'. pause r maxInputLen = Inr r' \<longrightarrow>
        mPromptLen r' = mPromptLen r \<and> mMaxNewTokens r' = mMaxNewTokens r \<and>
        mState r' = REQUEST_STATE_CONTEXT_INIT)"
proof -
  note inv = history_inv [OF assms(1)]
  note eq = pause_several_beams_eq [OF inv assms(2), of maxInputLen]
  from inv assms(2) have "\<forall>v \<in> set (mTokens r). mOrigPromptLen r \<le> int (length v)"
    and "0 \<le> mOrigPromptLen r"
    by (auto simp: request_inv_def)
  then have "\<forall>v \<in> set (mTokens r). int (length (take (nat (mOrigPromptLen r)) v)) = mOrigPromptLen r"
    by auto
  moreover from history_frame [OF assms(1)]
  have "mOrigPromptLen r = int (length (inputTokens a))"
    by simp
  ultimately show ?thesis
    unfolding eq by simp
qed

theorem pause_multi_beam_witness:
  "history (exArgs 2 True) [AddNewTokens [21, 22], SetLogProbs [1 / 2] 0, AddNewToken 23 1,
       SetState REQUEST_STATE_GENERATION_IN_PROGRESS]
     = Inr (exHistory 2 True [AddNewTokens [21, 22], SetLogProbs [1 / 2] 0, AddNewToken 23 1,
         SetState REQUEST_STATE_GENERATION_IN_PROGRESS]) \<and>
   mTokens (exHistory 2 True [AddNewTokens [21, 22], SetLogProbs [1 / 2] 0, AddNewToken 23 1,
         SetState REQUEST_STATE_GENERATION_IN_PROGRESS]) = [[11, 12, 13, 21], [11, 12, 13, 22, 23]] \<and>
   mLogProbs (exHistory 2 True [AddNewTokens [21, 22], SetLogProbs [1 / 2] 0, AddNewToken 23 1,
         SetState REQUEST_STATE_GENERATION_IN_PROGRESS]) = [[1 / 2], []] \<and>
   map_sum id mTokens (pause (exHistory 2 True [AddNewTokens [21, 22], SetLogProbs [1 / 2] 0,
         AddNewToken 23 1, SetState REQUEST_STATE_GENERATION_IN_PROGRESS]) 4)
     = Inr [[11, 12, 13], [11, 12, 13]] \<and>
   map_sum id mLogProbs (pause (exHistory 2 True [AddNewTokens [21, 22], SetLogProbs [1 / 2] 0,
         AddNewToken 23 1, SetState REQUEST_STATE_GENERATION_IN_PROGRESS]) 4)
     = Inr [[], []] \<and>
   map_sum id mPromptLen (pause (exHistory 2 True [AddNewTokens [21, 22], SetLogProbs [1 / 2] 0,
         AddNewToken 23 1, SetState REQUEST_STATE_GENERATION_IN_PROGRESS]) 4)
     = Inr 3 \<and>
   map_sum id mState (pause (exHistory 2 True [AddNewTokens [21, 22], SetLogProbs [1 / 2] 0,
         AddNewToken 23 1, SetState REQUEST_STATE_GENERATION_IN_PROGRESS]) 4)
     = Inr REQUEST_STATE_CONTEXT_INIT"
proof -
  let ?cs = "[AddNewTokens [21, 22], SetLogProbs [1 / 2] 0, AddNewToken 23 1,
       SetState REQUEST_STATE_GENERATION_IN_PROGRESS] :: unit call list"
  have h: "history (exArgs 2 True) ?cs = Inr (exHistory 2 True ?cs)"
    by (simp add: ex_eval numeral_2_eq_2)
  have f: "mTokens (exHistory 2 True ?cs) = [[11, 12, 13, 21], [11, 12, 13, 22, 23]]"
    "mLogProbs (exHistory 2 True ?cs) = [[1 / 2], []]"
    "beamWidth (mSamplingConfig (exHistory 2 True ?cs)) = 2"
    "mOrigPromptLen (exHistory 2 True ?cs) = 3"
    "mPromptLen (exHistory 2 True ?cs) = 3"
    "mReturnLogProbs (exHistory 2 True ?cs)"
    by (simp_all add: ex_eval numeral_2_eq_2)
  have b: "1 < beamWidth (mSamplingConfig (exHistory 2 True ?cs))"
    by (simp add: f)
  note eq = pause_multi_beam [OF h b, of 4, THEN conjunct1]
  have "map_sum id mTokens (pause (exHistory 2 True ?cs) 4) = Inr [[11, 12, 13], [11, 12, 13]]"
    "map_sum id mLogProbs (pause (exHistory 2 True ?cs) 4) = Inr [[], []]"
    "map_sum id mPromptLen (pause (exHistory 2 True ?cs) 4) = Inr 3"
    "map_sum id mState (pause (exHistory 2 True ?cs) 4) = Inr REQUEST_STATE_CONTEXT_INIT"
    unfolding eq by (simp_all add: f)
  with h f show ?thesis
    by simp
qed

text \<open>
  C5. A request in \<open>ContextInit\<close> with \<open>promptLen = 100\<close> and the cursor at the start
  runs \<^verbatim>\<open>setContextChunkSize\<close> / \<^verbatim>\<open>moveToNextContextChunk\<close> with the sizes 30, 30,
  30, 10 without failure. Over the eight states after the calls:
  \<^verbatim>\<open>isFirstContextChunk\<close> is true before the first advance (in the starting state and
  once the first chunk is assigned) and false from the first advance on;
  \<^verbatim>\<open>isLastContextChunk\<close> is false during the first three chunks and true once the
  fourth is assigned; the remaining length goes 100, 70, 40, 10, 0 over the advances;
  and the position stays between 0 and \<open>promptLen\<close>. (A starting state with no
  chunk size assigned is unchunked, and there both functions answer true, as their
  comments in the header say.)
\<close>

theorem chunked_context_run:
  assumes "mState r = REQUEST_STATE_CONTEXT_INIT" and "mPromptLen r = 100"
    and "mContextCurrentPosition r = 0"
  shows "isFirstContextChunk r \<and> getContextRemainingLength r = 100 \<and>
    map_sum id (map isFirstContextChunk) (trace r chunking)
      = Inr [True, False, False, False, False, False, False, False] \<and>
    map_sum id (map isLastContextChunk) (trace r chunking)
      = Inr [Inr False, Inr False, Inr False, Inr False, Inr False, Inr False, Inr True, Inr True] \<and>
    map_sum id (map getContextRemainingLength) (trace r chunking)
      = Inr [100, 70, 70, 40, 40, 10, 10, 0] \<and>
    map_sum id (map getContextCurrentPosition) (trace r chunking)
      = Inr [0, 30, 30, 60, 60, 90, 90, 100] \<and>
    map_sum id (map mPromptLen) (trace r chunking)
      = Inr [100, 100, 100, 100, 100, 100, 100, 100]"
  using assms
  by (simp add: chunking_def setContextChunkSize_def moveToNextContextChunk_def
      getContextChunkSize_def getContextRemainingLength_def getContextCurrentPosition_def
      isContextInitState_def isFirstContextChunk_def isLastContextChunk_def
      isFullContextRequest_def)

theorem chunked_context_run_witness:
  "mState (projr (GenericLlmRequest exArgs100)) = REQUEST_STATE_CONTEXT_INIT \<and>
   mPromptLen (projr (GenericLlmRequest exArgs100)) = 100 \<and>
   mContextCurrentPosition (projr (GenericLlmRequest exArgs100)) = 0 \<and>
   isFirstContextChunk (projr (GenericLlmRequest exArgs100)) \<and>
   map_sum id (map isFirstContextChunk) (trace (projr (GenericLlmRequest exArgs100)) chunking)
     = Inr [True, False, False, False, False, False, False, False] \<and>
   map_sum id (map isLastContextChunk) (trace (projr (GenericLlmRequest exArgs100)) chunking)
     = Inr [Inr False, Inr False, Inr False, Inr False, Inr False, Inr False, Inr True, Inr True] \<and>
   map_sum id (map getContextRemainingLength) (trace (projr (GenericLlmRequest exArgs100)) chunking)
     = Inr [100, 70, 70, 40, 40, 10, 10, 0] \<and>
   map_sum id (map getContextCurrentPosition) (trace (projr (GenericLlmRequest exArgs100)) chunking)
     = Inr [0, 30, 30, 60, 60, 90, 90, 100]"
proof -
  have f: "mState (projr (GenericLlmRequest exArgs100)) = REQUEST_STATE_CONTEXT_INIT"
    "mPromptLen (projr (GenericLlmRequest exArgs100)) = 100"
    "mContextCurrentPosition (projr (GenericLlmRequest exArgs100)) = 0"
    by (simp_all add: GenericLlmRequest_def exArgs100_def exArgs_def vector_n_def)
  from f chunked_context_run [OF f] show ?thesis
    by simp
qed

text \<open>
  C1. As stated (for every request with one beam and every \<open>maxInputLen\<close>) the claim
  fails in two ways. When log-probs are returned and \<open>maxInputLen\<close> is below the prompt
  length, the log-prob sequence is asked to take a negative size and \<^verbatim>\<open>pause\<close> throws
  before it sets the prompt length, the budget or the state: here the request is
  generating, has a prompt of 3 tokens and one generated token, and \<open>maxInputLen = 2\<close>.
  And the budget is a 32-bit integer: the same call without log-probs on a request with
  the budget 2147483647 should add 1 to it, and leaves it at -2147483648.
\<close>

theorem pause_single_beam_counterexample:
  "history (exArgs 1 True) [SetState REQUEST_STATE_GENERATION_IN_PROGRESS, AddNewToken 21 0]
     = Inr (exHistory 1 True [SetState REQUEST_STATE_GENERATION_IN_PROGRESS, AddNewToken 21 0]) \<and>
   beamWidth (mSamplingConfig
     (exHistory 1 True [SetState REQUEST_STATE_GENERATION_IN_PROGRESS, AddNewToken 21 0])) = 1 \<and>
   mPromptLen
     (exHistory 1 True [SetState REQUEST_STATE_GENERATION_IN_PROGRESS, AddNewToken 21 0]) = 3 \<and>
   mTokens
     (exHistory 1 True [SetState REQUEST_STATE_GENERATION_IN_PROGRESS, AddNewToken 21 0])
     = [[11, 12, 13, 21]] \<and>
   pause (exHistory 1 True [SetState REQUEST_STATE_GENERATION_IN_PROGRESS, AddNewToken 21 0]) 2
     = Inl LengthError \<and>
   map_sum id mMaxNewTokens
     (history ((exArgs 1 False)\<lparr>maxNewTokens := 2147483647\<rparr>)
        [SetState REQUEST_STATE_GENERATION_IN_PROGRESS, AddNewToken 21 0])
     = Inr 2147483647 \<and>
   map_sum id mPromptLen
     (history ((exArgs 1 False)\<lparr>maxNewTokens := 2147483647\<rparr>)
        [SetState REQUEST_STATE_GENERATION_IN_PROGRESS, AddNewToken 21 0, Pause 2])
     = Inr 2 \<and>
   map_sum id mMaxNewTokens
     (history ((exArgs 1 False)\<lparr>maxNewTokens := 2147483647\<rparr>)
        [SetState REQUEST_STATE_GENERATION_IN_PROGRESS, AddNewToken 21 0, Pause 2])
     = Inr (- 2147483648)"
proof -
  have a: "history (exArgs 1 True) [SetState REQUEST_STATE_GENERATION_IN_PROGRESS, AddNewToken 21 0]
     = Inr (exHistory 1 True [SetState REQUEST_STATE_GENERATION_IN_PROGRESS, AddNewToken 21 0])"
    "beamWidth (mSamplingConfig
       (exHistory 1 True [SetState REQUEST_STATE_GENERATION_IN_PROGRESS, AddNewToken 21 0])) = 1"
    "mPromptLen
       (exHistory 1 True [SetState REQUEST_STATE_GENERATION_IN_PROGRESS, AddNewToken 21 0]) = 3"
    "mTokens
       (exHistory 1 True [SetState REQUEST_STATE_GENERATION_IN_PROGRESS, AddNewToken 21 0])
       = [[11, 12, 13, 21]]"
    "pause (exHistory 1 True [SetState REQUEST_STATE_GENERATION_IN_PROGRESS, AddNewToken 21 0]) 2
       = Inl LengthError"
    by (simp_all add: ex_eval)
  have c: "GenericLlmRequest ((exArgs 1 False)\<lparr>maxNewTokens := 2147483647\<rparr>)
      = Inr ((exHistory 1 False [])\<lparr>mMaxNewTokens := 2147483647\<rparr>)"
    by (simp add: GenericLlmRequest_def exArgs_def vector_n_def exHistory_Nil)
  have b: "map_sum id mMaxNewTokens
       (history ((exArgs 1 False)\<lparr>maxNewTokens := 2147483647\<rparr>)
          [SetState REQUEST_STATE_GENERATION_IN_PROGRESS, AddNewToken 21 0])
       = Inr 2147483647"
    "map_sum id mPromptLen
       (history ((exArgs 1 False)\<lparr>maxNewTokens := 2147483647\<rparr>)
          [SetState REQUEST_STATE_GENERATION_IN_PROGRESS, AddNewToken 21 0, Pause 2])
       = Inr 2"
    "map_sum id mMaxNewTokens
       (history ((exArgs 1 False)\<lparr>maxNewTokens := 2147483647\<rparr>)
          [SetState REQUEST_STATE_GENERATION_IN_PROGRESS, AddNewToken 21 0, Pause 2])
       = Inr (- 2147483648)"
    unfolding history_def c
    by (simp_all add: exHistory_Nil addNewToken_def pause_def getMaxNumGeneratedTokens_def
        getMaxBeamNumTokens_def vec_at_def resize_def Let_def int32_wrap_def)
  show ?thesis
    by (intro conjI) (rule a b)+
qed

text \<open>
  C1, amended. For every request with one beam that a history produces, in any state, and
  every \<open>maxInputLen \<ge> 0\<close> that is not below the prompt length when log-probs are
  returned: \<^verbatim>\<open>pause(maxInputLen)\<close> succeeds; with
  \<open>newPromptLen = min(maxInputLen, promptLen + numGenerated)\<close> it resizes the beam to
  \<open>newPromptLen\<close> tokens, resizes the log-prob sequence to \<open>newPromptLen - promptLen\<close>
  when log-probs are returned, takes \<open>newPromptLen - promptLen\<close> from the budget in
  32-bit arithmetic (exactly that difference whenever the result fits 32 bits), sets the
  prompt length to \<open>newPromptLen\<close>, the state to \<open>ContextInit\<close>, the cursor to 0, and
  clears the chunk size and the slot; nothing else changes.
\<close>

theorem pause_single_beam:
  assumes "history a cs = Inr r" and "beamWidth (mSamplingConfig r) = 1"
    and "0 \<le> maxInputLen" and "mReturnLogProbs r \<longrightarrow> mPromptLen r \<le> maxInputLen"
  shows "\<exists>numGenerated beamTokens logProb beamTokens' logProb'.
     mTokens r = [beamTokens] \<and> mLogProbs r = [logProb] \<and>
     getMaxNumGeneratedTokens r = Inr numGenerated \<and>
     numGenerated = int (length beamTokens) - mPromptLen r \<and>
     (let newPromptLen = min maxInputLen (mPromptLen r + numGenerated) in
        resize beamTokens newPromptLen = Inr beamTokens' \<and>
        int (length beamTokens') = newPromptLen \<and>
        (mReturnLogProbs r \<longrightarrow>
           resize logProb (newPromptLen - mPromptLen r) = Inr logProb' \<and>
           int (length logProb') = newPromptLen - mPromptLen r) \<and>
        (- 2147483648 \<le> mMaxNewTokens r - (newPromptLen - mPromptLen r) \<and>
         mMaxNewTokens r - (newPromptLen - mPromptLen r) \<le> 2147483647 \<longrightarrow>
           int32_wrap (mMaxNewTokens r - (newPromptLen - mPromptLen r))
             = mMaxNewTokens r - (newPromptLen - mPromptLen r)) \<and>
        pause r maxInputLen =
          Inr (r\<lparr>mTokens := [beamTokens'],
                 mLogProbs := (if mReturnLogProbs r then [logProb'] else [logProb]),
                 mMaxNewTokens := int32_wrap (mMaxNewTokens r - (newPromptLen - mPromptLen r)),
                 mPromptLen := newPromptLen,
                 mState := REQUEST_STATE_CONTEXT_INIT,
                 mContextCurrentPosition := 0,
                 mContextChunkSize := None,
                 mSeqSlot := - 1\<rparr>))"
proof -
  note inv = history_inv [OF assms(1)]
  from inv assms(2) obtain bt lp where s: "mTokens r = [bt]" "mLogProbs r = [lp]"
    by (auto simp: request_inv_def length_Suc_conv)
  from inv s have ge: "mPromptLen r \<le> int (length bt)"
    by (simp add: request_inv_def)
  define n where "n = min maxInputLen (int (length bt))"
  have n: "min maxInputLen (mPromptLen r + (int (length bt) - mPromptLen r)) = n"
    by (simp add: n_def)
  from assms(3) have n0: "0 \<le> n"
    by (simp add: n_def)
  from assms(4) ge have nl: "mReturnLogProbs r \<longrightarrow> mPromptLen r \<le> n"
    by (simp add: n_def)
  let ?bt = "take (nat n) bt @ replicate (nat n - length bt) 0"
  let ?lp = "take (nat (n - mPromptLen r)) lp @ replicate (nat (n - mPromptLen r) - length lp) 0"
  have nb: "nat n \<le> length bt"
    using n0 by (simp add: n_def)
  have r1: "resize bt n = Inr ?bt"
    using n0 by (simp add: resize_def)
  have r2: "mReturnLogProbs r \<longrightarrow> resize lp (n - mPromptLen r) = Inr ?lp"
    using nl by (auto simp: resize_def)
  have l1: "int (length ?bt) = n"
    using length_resize [OF r1] .
  have l2: "mReturnLogProbs r \<longrightarrow> int (length ?lp) = n - mPromptLen r"
    using r2 length_resize [of lp "n - mPromptLen r" ?lp] by blast
  have p: "pause r maxInputLen =
      Inr (r\<lparr>mTokens := [?bt],
             mLogProbs := (if mReturnLogProbs r then [?lp] else [lp]),
             mMaxNewTokens := int32_wrap (mMaxNewTokens r - (n - mPromptLen r)),
             mPromptLen := n,
             mState := REQUEST_STATE_CONTEXT_INIT,
             mContextCurrentPosition := 0,
             mContextChunkSize := None,
             mSeqSlot := - 1\<rparr>)"
    unfolding pause_one_beam_eq [OF s assms(2)] n_def [symmetric]
    using n0 nl nb by auto
  show ?thesis
    apply (rule exI [of _ "int (length bt) - mPromptLen r"])
    apply (rule exI [of _ bt])
    apply (rule exI [of _ lp])
    apply (rule exI [of _ ?bt])
    apply (rule exI [of _ ?lp])
    unfolding Let_def n
    using s getMaxNumGeneratedTokens_single [OF s(1) assms(2)] r1 r2 l1 l2 p
      int32_wrap_id [of "mMaxNewTokens r - (n - mPromptLen r)"]
    apply (intro conjI)
    apply blast+
    done
qed


theorem pause_single_beam_witness:
  "history (exArgs 1 True)
       [AddNewToken 21 0, AddNewToken 22 0, SetLogProbs [1 / 2, 1 / 4] 0,
        SetState REQUEST_STATE_GENERATION_IN_PROGRESS]
     = Inr (exHistory 1 True
       [AddNewToken 21 0, AddNewToken 22 0, SetLogProbs [1 / 2, 1 / 4] 0,
        SetState REQUEST_STATE_GENERATION_IN_PROGRESS]) \<and>
   beamWidth (mSamplingConfig (exHistory 1 True
       [AddNewToken 21 0, AddNewToken 22 0, SetLogProbs [1 / 2, 1 / 4] 0,
        SetState REQUEST_STATE_GENERATION_IN_PROGRESS])) = 1 \<and>
   mState (exHistory 1 True
       [AddNewToken 21 0, AddNewToken 22 0, SetLogProbs [1 / 2, 1 / 4] 0,
        SetState REQUEST_STATE_GENERATION_IN_PROGRESS]) = REQUEST_STATE_GENERATION_IN_PROGRESS \<and>
   mPromptLen (exHistory 1 True
       [AddNewToken 21 0, AddNewToken 22 0, SetLogProbs [1 / 2, 1 / 4] 0,
        SetState REQUEST_STATE_GENERATION_IN_PROGRESS]) = 3 \<and>
   mTokens (exHistory 1 True
       [AddNewToken 21 0, AddNewToken 22 0, SetLogProbs [1 / 2, 1 / 4] 0,
        SetState REQUEST_STATE_GENERATION_IN_PROGRESS]) = [[11, 12, 13, 21, 22]] \<and>
   map_sum id mTokens (pause (exHistory 1 True
       [AddNewToken 21 0, AddNewToken 22 0, SetLogProbs [1 / 2, 1 / 4] 0,
        SetState REQUEST_STATE_GENERATION_IN_PROGRESS]) 4) = Inr [[11, 12, 13, 21]] \<and>
   map_sum id mLogProbs (pause (exHistory 1 True
       [AddNewToken 21 0, AddNewToken 22 0, SetLogProbs [1 / 2, 1 / 4] 0,
        SetState REQUEST_STATE_GENERATION_IN_PROGRESS]) 4) = Inr [[1 / 2]] \<and>
   map_sum id mPromptLen (pause (exHistory 1 True
       [AddNewToken 21 0, AddNewToken 22 0, SetLogProbs [1 / 2, 1 / 4] 0,
        SetState REQUEST_STATE_GENERATION_IN_PROGRESS]) 4) = Inr 4 \<and>
   map_sum id mMaxNewTokens (pause (exHistory 1 True
       [AddNewToken 21 0, AddNewToken 22 0, SetLogProbs [1 / 2, 1 / 4] 0,
        SetState REQUEST_STATE_GENERATION_IN_PROGRESS]) 4) = Inr 15 \<and>
   map_sum id mState (pause (exHistory 1 True
       [AddNewToken 21 0, AddNewToken 22 0, SetLogProbs [1 / 2, 1 / 4] 0,
        SetState REQUEST_STATE_GENERATION_IN_PROGRESS]) 4) = Inr REQUEST_STATE_CONTEXT_INIT"
proof -
  let ?cs = "[AddNewToken 21 0, AddNewToken 22 0, SetLogProbs [1 / 2, 1 / 4] 0,
        SetState REQUEST_STATE_GENERATION_IN_PROGRESS] :: unit call list"
  let ?r = "exHistory 1 True ?cs"
  have h: "history (exArgs 1 True) ?cs = Inr ?r"
    by (simp add: ex_eval)
  have f: "beamWidth (mSamplingConfig ?r) = 1"
    "mState ?r = REQUEST_STATE_GENERATION_IN_PROGRESS"
    "mPromptLen ?r = 3" "mTokens ?r = [[11, 12, 13, 21, 22]]"
    "mLogProbs ?r = [[1 / 2, 1 / 4]]" "mReturnLogProbs ?r" "mMaxNewTokens ?r = 16"
    by (simp_all add: ex_eval)
  have m: "(0::int) \<le> 4" "mReturnLogProbs ?r \<longrightarrow> mPromptLen ?r \<le> 4"
    by (simp_all add: f)
  from pause_single_beam [OF h f(1) m]
  obtain numGenerated beamTokens logProb beamTokens' logProb' where
    s: "mTokens ?r = [beamTokens]" "mLogProbs ?r = [logProb]"
      "numGenerated = int (length beamTokens) - mPromptLen ?r"
    and t: "resize beamTokens (min 4 (mPromptLen ?r + numGenerated)) = Inr beamTokens'"
      "resize logProb (min 4 (mPromptLen ?r + numGenerated) - mPromptLen ?r) = Inr logProb'"
    and p: "pause ?r 4 =
          Inr (?r\<lparr>mTokens := [beamTokens'],
                 mLogProbs := (if mReturnLogProbs ?r then [logProb'] else [logProb]),
                 mMaxNewTokens :=
                   int32_wrap (mMaxNewTokens ?r - (min 4 (mPromptLen ?r + numGenerated) - mPromptLen ?r)),
                 mPromptLen := min 4 (mPromptLen ?r + numGenerated),
                 mState := REQUEST_STATE_CONTEXT_INIT,
                 mContextCurrentPosition := 0,
                 mContextChunkSize := None,
                 mSeqSlot := - 1\<rparr>)"
    unfolding Let_def using f(6) by blast
  from s(1) have v1: "beamTokens = [11, 12, 13, 21, 22]"
    unfolding f(4) by simp
  from s(2) have v2: "logProb = [1 / 2, 1 / 4]"
    unfolding f(5) by simp
  from s(3) have v3: "numGenerated = 2"
    unfolding v1 f(3) by simp
  note v = v1 v2 v3
  from t have w: "beamTokens' = [11, 12, 13, 21]" "logProb' = [1 / 2]"
    unfolding v f by (simp_all add: resize_def)
  have "map_sum id mTokens (pause ?r 4) = Inr [[11, 12, 13, 21]]"
    "map_sum id mLogProbs (pause ?r 4) = Inr [[1 / 2]]"
    "map_sum id mPromptLen (pause ?r 4) = Inr 4"
    "map_sum id mMaxNewTokens (pause ?r 4) = Inr 15"
    "map_sum id mState (pause ?r 4) = Inr REQUEST_STATE_CONTEXT_INIT"
    unfolding p v w by (simp_all add: f int32_wrap_def)
  with h f show ?thesis
    by simp
qed

text \<open>
  C4. As stated (for every request) the claim fails: a request that does not return
  log-probs can be paused to a prompt shorter than the one it was constructed with, and
  then \<open>promptLen - origPromptLen\<close> is negative, no index, and \<^verbatim>\<open>setLogProbs\<close> throws.
  Here a generating request with a prompt of 3 tokens is paused with \<open>maxInputLen = 2\<close>.
\<close>

theorem setLogProbs_counterexample:
  "history (exArgs 1 False)
       [SetState REQUEST_STATE_GENERATION_IN_PROGRESS, AddNewToken 21 0, Pause 2]
     = Inr (exHistory 1 False
       [SetState REQUEST_STATE_GENERATION_IN_PROGRESS, AddNewToken 21 0, Pause 2]) \<and>
   mPromptLen (exHistory 1 False
       [SetState REQUEST_STATE_GENERATION_IN_PROGRESS, AddNewToken 21 0, Pause 2]) = 2 \<and>
   mOrigPromptLen (exHistory 1 False
       [SetState REQUEST_STATE_GENERATION_IN_PROGRESS, AddNewToken 21 0, Pause 2]) = 3 \<and>
   length (mLogProbs (exHistory 1 False
       [SetState REQUEST_STATE_GENERATION_IN_PROGRESS, AddNewToken 21 0, Pause 2])) = 1 \<and>
   setLogProbs (exHistory 1 False
       [SetState REQUEST_STATE_GENERATION_IN_PROGRESS, AddNewToken 21 0, Pause 2]) [1 / 2] 0
     = Inl LengthError"
  by (simp add: ex_eval)

text \<open>
  C4, amended. For every request a history produces that returns log-probs, or whose
  \<open>promptLen\<close> is not below \<open>origPromptLen\<close>, every beam index in range and every list
  of values: \<^verbatim>\<open>setLogProbs(values, beam)\<close> succeeds and changes only that beam's
  log-prob sequence, which then has \<open>promptLen - origPromptLen\<close> entries followed by the
  values; the entries before are the old ones (zero where there was none), and whatever
  was at or beyond that index is gone. With \<open>origPromptLen = 50\<close>, \<open>promptLen = 60\<close> and
  10 values, the values are at the indices 10 to 19.
\<close>

theorem setLogProbs_offset:
  assumes "history a cs = Inr r"
    and "0 \<le> beam" and "beam < beamWidth (mSamplingConfig r)"
    and "mReturnLogProbs r \<or> mOrigPromptLen r \<le> mPromptLen r"
  shows "\<exists>lp'.
     setLogProbs r logProbs beam = Inr (r\<lparr>mLogProbs := (mLogProbs r)[nat beam := lp']\<rparr>) \<and>
     nat beam < length (mLogProbs r) \<and>
     0 \<le> mPromptLen r - mOrigPromptLen r \<and>
     length lp' = nat (mPromptLen r - mOrigPromptLen r) + length logProbs \<and>
     drop (nat (mPromptLen r - mOrigPromptLen r)) lp' = logProbs \<and>
     (\<forall>i < length logProbs. lp' ! (nat (mPromptLen r - mOrigPromptLen r) + i) = logProbs ! i) \<and>
     (\<forall>i < nat (mPromptLen r - mOrigPromptLen r).
        lp' ! i = (if i < length (mLogProbs r ! nat beam) then mLogProbs r ! nat beam ! i else 0)) \<and>
     (mOrigPromptLen r = 50 \<and> mPromptLen r = 60 \<and> length logProbs = 10 \<longrightarrow>
        length lp' = 20 \<and> (\<forall>i. 10 \<le> i \<and> i < 20 \<longrightarrow> lp' ! i = logProbs ! (i - 10)))"
proof -
  note inv = history_inv [OF assms(1)]
  from inv assms(2,3) have b: "nat beam < length (mLogProbs r)"
    by (simp add: request_inv_def)
  from inv assms(2,3,4) have d: "0 \<le> mPromptLen r - mOrigPromptLen r"
    by (auto simp: request_inv_def)
  define k where "k = nat (mPromptLen r - mOrigPromptLen r)"
  define old where "old = mLogProbs r ! nat beam"
  define pre where "pre = take k old @ replicate (k - length old) (0::real)"
  have lpre: "length pre = k"
    by (simp add: pre_def)
  have e: "setLogProbs r logProbs beam =
      Inr (r\<lparr>mLogProbs := (mLogProbs r)[nat beam := pre @ logProbs]\<rparr>)"
    using b d assms(2) by (simp add: setLogProbs_def vec_at_def resize_def pre_def k_def old_def)
  have pre_nth: "pre ! i = (if i < length old then old ! i else 0)" if "i < k" for i
    using that by (auto simp: pre_def nth_append)
  have app: "(pre @ logProbs) ! (k + i) = logProbs ! i" for i
    using lpre by (simp add: nth_append)
  have sp: "(pre @ logProbs) ! i = logProbs ! (i - 10)" if "k = 10" "10 \<le> i" for i
    using that lpre by (simp add: nth_append)
  have k50: "k = 10" if "mOrigPromptLen r = 50" "mPromptLen r = 60"
    using that by (simp add: k_def)
  show ?thesis
    apply (rule exI [of _ "pre @ logProbs"])
    unfolding k_def [symmetric] old_def [symmetric]
    using e b d lpre pre_nth app sp k50
    by (auto simp: nth_append)
qed

theorem setLogProbs_offset_witness:
  "history (exArgs 1 True)
       [AddNewToken 21 0, AddNewToken 22 0, SetLogProbs [1 / 8, 1 / 16] 0, Pause 5,
        AddNewToken 23 0]
     = Inr (exHistory 1 True
       [AddNewToken 21 0, AddNewToken 22 0, SetLogProbs [1 / 8, 1 / 16] 0, Pause 5,
        AddNewToken 23 0]) \<and>
   mReturnLogProbs (exHistory 1 True
       [AddNewToken 21 0, AddNewToken 22 0, SetLogProbs [1 / 8, 1 / 16] 0, Pause 5,
        AddNewToken 23 0]) \<and>
   mOrigPromptLen (exHistory 1 True
       [AddNewToken 21 0, AddNewToken 22 0, SetLogProbs [1 / 8, 1 / 16] 0, Pause 5,
        AddNewToken 23 0]) = 3 \<and>
   mPromptLen (exHistory 1 True
       [AddNewToken 21 0, AddNewToken 22 0, SetLogProbs [1 / 8, 1 / 16] 0, Pause 5,
        AddNewToken 23 0]) = 5 \<and>
   mLogProbs (exHistory 1 True
       [AddNewToken 21 0, AddNewToken 22 0, SetLogProbs [1 / 8, 1 / 16] 0, Pause 5,
        AddNewToken 23 0]) = [[1 / 8, 1 / 16]] \<and>
   map_sum id mLogProbs (setLogProbs (exHistory 1 True
       [AddNewToken 21 0, AddNewToken 22 0, SetLogProbs [1 / 8, 1 / 16] 0, Pause 5,
        AddNewToken 23 0]) [1 / 2] 0) = Inr [[1 / 8, 1 / 16, 1 / 2]]"
proof -
  let ?cs = "[AddNewToken 21 0, AddNewToken 22 0, SetLogProbs [1 / 8, 1 / 16] 0, Pause 5,
        AddNewToken 23 0] :: unit call list"
  let ?r = "exHistory 1 True ?cs"
  have h: "history (exArgs 1 True) ?cs = Inr ?r"
    by (simp add: ex_eval)
  have f: "mReturnLogProbs ?r" "mOrigPromptLen ?r = 3" "mPromptLen ?r = 5"
    "mLogProbs ?r = [[1 / 8, 1 / 16]]" "beamWidth (mSamplingConfig ?r) = 1"
    by (simp_all add: ex_eval)
  have b: "(0::int) \<le> 0" "0 < beamWidth (mSamplingConfig ?r)"
    "mReturnLogProbs ?r \<or> mOrigPromptLen ?r \<le> mPromptLen ?r"
    by (simp_all add: f)
  from setLogProbs_offset [OF h b, of "[1 / 2]"]
  obtain lp' where e: "setLogProbs ?r [1 / 2] 0 = Inr (?r\<lparr>mLogProbs := (mLogProbs ?r)[nat 0 := lp']\<rparr>)"
    and l: "length lp' = nat (mPromptLen ?r - mOrigPromptLen ?r) + length [1 / 2 :: real]"
    and d: "\<forall>i < length [1 / 2 :: real].
        lp' ! (nat (mPromptLen ?r - mOrigPromptLen ?r) + i) = [1 / 2] ! i"
    and o: "\<forall>i < nat (mPromptLen ?r - mOrigPromptLen ?r).
        lp' ! i = (if i < length (mLogProbs ?r ! nat 0) then mLogProbs ?r ! nat 0 ! i else 0)"
    by blast
  from o have "lp' ! 0 = 1 / 8" "lp' ! 1 = 1 / 16"
    by (simp_all add: f)
  moreover from d have "lp' ! 2 = 1 / 2"
    by (simp add: f)
  moreover from l have "length lp' = 3"
    by (simp add: f)
  ultimately have "lp' = [1 / 8, 1 / 16, 1 / 2]"
    by (simp add: list_eq_iff_nth_eq nth_Cons' less_Suc_eq numeral_3_eq_3 numeral_2_eq_2)
  with h f show ?thesis
    unfolding e by simp
qed

end
